theory Spec2Isabelle
  imports Main "HOL-Library.Word"
begin

section \<open>Errors and outcomes\<close>

text \<open>
  The error values the two packages return. \<open>E_*\<close> are the constants of
  \<open>pkg/errors\<close> used by \<open>entity_manager\<close>, \<open>ErrUnknownCapability\<close> is
  \<open>tree.ErrUnknownCapability\<close> and \<open>ErrUnknownTokenService\<close> belongs to package
  \<open>token\<close>. \<open>Foreign\<close> stands for an error produced by a collaborator (storage,
  sealer, hook chain) and handed back unchanged.
\<close>

datatype error =
    E_DUPLICATE_ID
  | E_DUPLICATE_UIDNUMBER
  | E_ENTITY_UNQUALIFIED
  | E_ENTITY_BADAUTH
  | E_NO_ENTITY
  | ErrUnknownCapability
  | ErrUnknownTokenService
  | Foreign string

text \<open>
  A Go call either returns, panics (a nil pointer is dereferenced) or ends the process
  (\<open>log.Fatal\<close>). A Go \<open>error\<close> result is an \<open>error option\<close>, \<open>None\<close> being \<open>nil\<close>.
\<close>

datatype 'a outcome = Panic | Fatal | Return 'a

definition bindO :: "'a outcome \<Rightarrow> ('a \<Rightarrow> 'b outcome) \<Rightarrow> 'b outcome" where
  "bindO r f = (case r of Panic \<Rightarrow> Panic | Fatal \<Rightarrow> Fatal | Return x \<Rightarrow> f x)"

section \<open>The entity record\<close>

type_synonym int32 = "32 word"

text \<open>\<open>pb.Capability\<close> is a protobuf enumeration, an \<open>int32\<close> in Go.\<close>

type_synonym capability = "32 word"

text \<open>
  Modelled from the spec: the generated protobuf types \<open>pb.Entity\<close> and
  \<open>pb.EntityMeta\<close> are not among the source files. The fields are those the code
  touches and section 3 of the specification lists. Optional scalar fields are
  pointers in Go (\<open>None\<close> is \<open>nil\<close>); repeated fields are slices, where \<open>nil\<close> and
  the empty slice are both \<open>[]\<close>. \<open>Number\<close> is called \<open>UidNumber\<close> in package
  \<open>entity_manager\<close>. The record is polymorphic in how the metadata block is held:
  by value (\<open>entity\<close>) or by address (\<open>entity_cell\<close>, in the store model below).
\<close>

record entity_meta =
  Capabilities :: "capability list"
  Groups :: "string list"
  Keys :: "string list"
  UntypedMeta :: "string list"
  Locked :: "bool option"

record 'm entity_rec =
  ID :: "string option"
  Number :: "int32 option"
  Secret :: "string option"
  Meta :: "'m option"

type_synonym entity = "entity_meta entity_rec"

definition emptyMeta :: entity_meta where
  "emptyMeta = \<lparr>Capabilities = [], Groups = [], Keys = [], UntypedMeta = [], Locked = None\<rparr>"

definition emptyEntity :: "'m entity_rec" where
  "emptyEntity = \<lparr>ID = None, Number = None, Secret = None, Meta = None\<rparr>"

text \<open>
  The generated getters are safe on \<open>nil\<close>: \<open>e.GetMeta().GetCapabilities()\<close> and
  \<open>e.GetMeta().GetKeys()\<close> give the empty slice when the entity has no metadata block,
  and the getter of a scalar field gives the zero value when the field is not set.
\<close>

definition GetCapabilities :: "entity \<Rightarrow> capability list" where
  "GetCapabilities e = (case Meta e of None \<Rightarrow> [] | Some m \<Rightarrow> Capabilities m)"

definition GetKeys :: "entity \<Rightarrow> string list" where
  "GetKeys e = (case Meta e of None \<Rightarrow> [] | Some m \<Rightarrow> Keys m)"

definition GetID :: "entity \<Rightarrow> string" where
  "GetID e = (case ID e of None \<Rightarrow> [] | Some i \<Rightarrow> i)"

definition GetSecret :: "entity \<Rightarrow> string" where
  "GetSecret e = (case Secret e of None \<Rightarrow> [] | Some x \<Rightarrow> x)"

definition GetLocked :: "entity \<Rightarrow> bool" where
  "GetLocked e =
     (case Meta e of None \<Rightarrow> False | Some m \<Rightarrow> (case Locked m of None \<Rightarrow> False | Some b \<Rightarrow> b))"

subsection \<open>\<open>proto.Merge\<close>\<close>

text \<open>
  \<open>proto.Merge(dst, src)\<close> of \<open>github.com/golang/protobuf\<close>: an optional field that is
  set in \<open>src\<close> overwrites the one of \<open>dst\<close>, the elements of a repeated field are
  appended, and a nested message is merged recursively into the one of \<open>dst\<close>, which
  is allocated first when \<open>dst\<close> has none.
\<close>

definition mergeOpt :: "'a option \<Rightarrow> 'a option \<Rightarrow> 'a option" where
  "mergeOpt dst src = (case src of None \<Rightarrow> dst | Some v \<Rightarrow> Some v)"

definition mergeMeta :: "entity_meta \<Rightarrow> entity_meta \<Rightarrow> entity_meta" where
  "mergeMeta dst src =
     \<lparr>Capabilities = Capabilities dst @ Capabilities src,
      Groups = Groups dst @ Groups src,
      Keys = Keys dst @ Keys src,
      UntypedMeta = UntypedMeta dst @ UntypedMeta src,
      Locked = mergeOpt (Locked dst) (Locked src)\<rparr>"

definition mergeEntity :: "entity \<Rightarrow> entity \<Rightarrow> entity" where
  "mergeEntity dst src =
     \<lparr>ID = mergeOpt (ID dst) (ID src),
      Number = mergeOpt (Number dst) (Number src),
      Secret = mergeOpt (Secret dst) (Secret src),
      Meta = (case Meta src of
                None \<Rightarrow> Meta dst
              | Some sm \<Rightarrow>
                  Some (mergeMeta (case Meta dst of None \<Rightarrow> emptyMeta | Some dm \<Rightarrow> dm) sm))\<rparr>"

section \<open>What the code is given\<close>

text \<open>
  The collaborators and tables the functions use but the source files do not contain,
  taken as parameters. \<open>'s\<close> is the state of the storage behind \<open>emds.db\<close> and
  \<open>m.db\<close>.
  \<^item> \<open>LoadEntity\<close>, \<open>LoadEntityNumber\<close>, \<open>SaveEntity\<close>, \<open>DeleteEntity\<close>: the storage
    interface; a load reads only, a save or delete returns its error and the state it
    leaves.
  \<^item> \<open>SecureSecret\<close>, \<open>VerifySecret\<close>: the crypto interface.
  \<^item> \<open>nextUIDNumber\<close>: the allocator called by \<open>newEntity\<close>.
  \<^item> \<open>Capability_value\<close>, \<open>Capability_GLOBAL_ROOT\<close>: the generated name table and
    constant of the capability enumeration.
  \<^item> \<open>FetchHooks\<close>, \<open>RunHooks\<close>: \<open>EntityProcessor.FetchHooks\<close> for a stage name, and
    \<open>EntityProcessor.Run\<close> of that stage on the storage state, the processor's entity
    and its request data.
  \<^item> \<open>patchStringSlice\<close> and \<open>ToUpper\<close> (\<open>strings.ToUpper\<close>).
\<close>

record 's ports =
  LoadEntity :: "'s \<Rightarrow> string \<Rightarrow> error + entity"
  LoadEntityNumber :: "'s \<Rightarrow> int32 \<Rightarrow> error + entity"
  SaveEntity :: "'s \<Rightarrow> entity \<Rightarrow> error option \<times> 's"
  DeleteEntity :: "'s \<Rightarrow> string \<Rightarrow> error option \<times> 's"
  SecureSecret :: "string \<Rightarrow> error + string"
  VerifySecret :: "string \<Rightarrow> string \<Rightarrow> error option"
  nextUIDNumber :: "'s \<Rightarrow> error + int32"
  Capability_value :: "string \<Rightarrow> int32 option"
  Capability_GLOBAL_ROOT :: capability
  FetchHooks :: "string \<Rightarrow> error option"
  RunHooks :: "string \<Rightarrow> 's \<Rightarrow> entity \<Rightarrow> entity \<Rightarrow> (error + entity) \<times> 's"
  patchStringSlice :: "string list \<Rightarrow> string \<Rightarrow> bool \<Rightarrow> bool \<Rightarrow> string list"
  ToUpper :: "string \<Rightarrow> string"

section \<open>Package \<open>entity_manager\<close>: capabilities\<close>

text \<open>
  \<open>pb.Capability(pb.Capability_value[c])\<close>: reading a Go map at a key it does not hold
  gives the zero value.
\<close>

definition capabilityOf :: "'s ports \<Rightarrow> string \<Rightarrow> capability" where
  "capabilityOf P c = (case Capability_value P c of None \<Rightarrow> 0 | Some v \<Rightarrow> v)"

text \<open>The loop of \<open>checkEntityCapability\<close> over \<open>e.Meta.Capabilities\<close>.\<close>

fun checkLoop :: "capability \<Rightarrow> capability \<Rightarrow> capability list \<Rightarrow> error option" where
  "checkLoop root cap [] = Some E_ENTITY_UNQUALIFIED"
| "checkLoop root cap (a # as) =
     (if a = root then None
      else if a = cap then None
      else checkLoop root cap as)"

text \<open>\<open>e.Meta.Capabilities\<close> dereferences \<open>e.Meta\<close>: a \<open>nil\<close> metadata block panics.\<close>

definition checkEntityCapability ::
  "'s ports \<Rightarrow> entity \<Rightarrow> string \<Rightarrow> error option outcome" where
  "checkEntityCapability P e c =
     (case Meta e of
        None \<Rightarrow> Panic
      | Some m \<Rightarrow> Return (checkLoop (Capability_GLOBAL_ROOT P) (capabilityOf P c) (Capabilities m)))"

definition checkEntityCapabilityByID ::
  "'s ports \<Rightarrow> 's \<Rightarrow> string \<Rightarrow> string \<Rightarrow> error option outcome" where
  "checkEntityCapabilityByID P s eID c =
     (case LoadEntity P s eID of
        Inl err \<Rightarrow> Return (Some err)
      | Inr e \<Rightarrow> checkEntityCapability P e c)"

text \<open>The loop of \<open>setEntityCapability\<close>: does the entity hold \<open>cap\<close> already?\<close>

fun holdsLoop :: "capability \<Rightarrow> capability list \<Rightarrow> bool" where
  "holdsLoop cap [] = False"
| "holdsLoop cap (a # as) = (if a = cap then True else holdsLoop cap as)"

text \<open>
  \<open>setEntityCapability\<close> changes the entity it is given in place and then saves it: the
  result holds the error, the entity as the caller sees it afterwards and the storage
  state.
\<close>

definition setEntityCapability ::
  "'s ports \<Rightarrow> 's \<Rightarrow> entity \<Rightarrow> string \<Rightarrow> (error option \<times> entity \<times> 's) outcome" where
  "setEntityCapability P s e c =
     (if length c = 0 then Return (None, e, s)
      else
        (case Meta e of
           None \<Rightarrow> Panic
         | Some m \<Rightarrow>
             (let cap = capabilityOf P c in
              if holdsLoop cap (Capabilities m) then Return (None, e, s)
              else
                (let e' = e\<lparr>Meta := Some (m\<lparr>Capabilities := Capabilities m @ [cap]\<rparr>)\<rparr>
                 in (case SaveEntity P s e' of (err, s') \<Rightarrow> Return (err, e', s'))))))"

definition setEntityCapabilityByID ::
  "'s ports \<Rightarrow> 's \<Rightarrow> string \<Rightarrow> string \<Rightarrow> (error option \<times> 's) outcome" where
  "setEntityCapabilityByID P s eID c =
     (case LoadEntity P s eID of
        Inl err \<Rightarrow> Return (Some err, s)
      | Inr e \<Rightarrow> bindO (setEntityCapability P s e c) (\<lambda>(err, e', s'). Return (err, s')))"

section \<open>Package \<open>entity_manager\<close>: secrets, creation, bootstrap, metadata\<close>

definition setEntitySecretByID ::
  "'s ports \<Rightarrow> 's \<Rightarrow> string \<Rightarrow> string \<Rightarrow> error option \<times> 's" where
  "setEntitySecretByID P s eID secret =
     (case LoadEntity P s eID of
        Inl err \<Rightarrow> (Some err, s)
      | Inr e \<Rightarrow>
          (case SecureSecret P secret of
             Inl err \<Rightarrow> (Some err, s)
           | Inr ssecret \<Rightarrow> SaveEntity P s (e\<lparr>Secret := Some ssecret\<rparr>)))"

text \<open>
  \<open>newEntity\<close>: both lookups come first, the one by ID before the one by number, and
  each returns before anything is saved.
\<close>

definition newEntity ::
  "'s ports \<Rightarrow> 's \<Rightarrow> string \<Rightarrow> int32 \<Rightarrow> string \<Rightarrow> error option \<times> 's" where
  "newEntity P s eID uidNumber secret =
     (case LoadEntity P s eID of
        Inr found \<Rightarrow> (Some E_DUPLICATE_ID, s)
      | Inl notFound \<Rightarrow>
          (case LoadEntityNumber P s uidNumber of
             Inr found \<Rightarrow> (Some E_DUPLICATE_UIDNUMBER, s)
           | Inl notFound' \<Rightarrow>
               (case (if uidNumber = - 1 then nextUIDNumber P s else Inr uidNumber) of
                  Inl err \<Rightarrow> (Some err, s)
                | Inr n \<Rightarrow>
                    (case SaveEntity P s
                            \<lparr>ID = Some eID, Number = Some n, Secret = Some secret,
                             Meta = Some emptyMeta\<rparr> of
                       (Some err, s') \<Rightarrow> (Some err, s')
                     | (None, s') \<Rightarrow> setEntitySecretByID P s' eID secret))))"

text \<open>The data store: the storage state and the flag \<open>bootstrap_done\<close>.\<close>

record 's EMDataStore =
  db :: 's
  bootstrap_done :: bool

text \<open>
  \<open>EMDataStore.MakeBootstrap\<close>. The errors of \<open>setEntityCapability\<close>, \<open>newEntity\<close> and
  \<open>setEntityCapabilityByID\<close> are logged or dropped, never returned.
\<close>

definition MakeBootstrap ::
  "'s ports \<Rightarrow> 's EMDataStore \<Rightarrow> string \<Rightarrow> string \<Rightarrow> 's EMDataStore outcome" where
  "MakeBootstrap P emds eID secret =
     (if bootstrap_done emds then Return emds
      else
        (case LoadEntity P (db emds) eID of
           Inr e \<Rightarrow>
             bindO (setEntityCapability P (db emds) e ''GLOBAL_ROOT'')
               (\<lambda>(err, e', s'). Return (emds\<lparr>db := s', bootstrap_done := True\<rparr>))
         | Inl err \<Rightarrow>
             (case newEntity P (db emds) eID (- 1) secret of
                (err1, s1) \<Rightarrow>
                  bindO (setEntityCapabilityByID P s1 eID ''GLOBAL_ROOT'')
                    (\<lambda>(err2, s2). Return (emds\<lparr>db := s2, bootstrap_done := True\<rparr>)))))"

definition DisableBootstrap :: "'s EMDataStore \<Rightarrow> 's EMDataStore" where
  "DisableBootstrap emds = emds\<lparr>bootstrap_done := True\<rparr>"

text \<open>
  \<open>EMDataStore.ValidateSecret\<close>: \<open>*e.Secret\<close> dereferences the secret, so an entity
  without one panics. The verifier's error is replaced by \<open>E_ENTITY_BADAUTH\<close>; the
  loader's error is returned as it is.
\<close>

definition ValidateSecret ::
  "'s ports \<Rightarrow> 's \<Rightarrow> string \<Rightarrow> string \<Rightarrow> error option outcome" where
  "ValidateSecret P s eID secret =
     (case LoadEntity P s eID of
        Inl err \<Rightarrow> Return (Some err)
      | Inr e \<Rightarrow>
          (case Secret e of
             None \<Rightarrow> Panic
           | Some sealed \<Rightarrow>
               (case VerifySecret P secret sealed of
                  Some err \<Rightarrow> Return (Some E_ENTITY_BADAUTH)
                | None \<Rightarrow> Return None)))"

definition validateEntityCapabilityAndSecret ::
  "'s ports \<Rightarrow> 's \<Rightarrow> string \<Rightarrow> string \<Rightarrow> string \<Rightarrow> error option outcome" where
  "validateEntityCapabilityAndSecret P s eID secret capability =
     bindO (ValidateSecret P s eID secret)
       (\<lambda>r. case r of
               Some err \<Rightarrow> Return (Some err)
             | None \<Rightarrow> checkEntityCapabilityByID P s eID capability)"

text \<open>
  \<open>updateEntityMeta\<close>: \<open>newMeta\<close> is a pointer (\<open>None\<close> is \<open>nil\<close>, and writing its
  fields panics); \<open>proto.Merge\<close> panics on a \<open>nil\<close> destination, which \<open>e.GetMeta()\<close>
  is when the entity has no metadata block. The merge happens on the entity the caller
  holds, then the entity is saved.
\<close>

definition updateEntityMeta ::
  "'s ports \<Rightarrow> 's \<Rightarrow> entity \<Rightarrow> entity_meta option \<Rightarrow> (error option \<times> entity \<times> 's) outcome" where
  "updateEntityMeta P s e newMeta =
     (case newMeta of
        None \<Rightarrow> Panic
      | Some nm \<Rightarrow>
          (let nm' = nm\<lparr>Capabilities := [], Groups := []\<rparr> in
           case Meta e of
             None \<Rightarrow> Panic
           | Some meta \<Rightarrow>
               (let e' = e\<lparr>Meta := Some (mergeMeta meta nm')\<rparr>
                in (case SaveEntity P s e' of (err, s') \<Rightarrow> Return (err, e', s')))))"

definition UpdateEntityMeta ::
  "'s ports \<Rightarrow> 's \<Rightarrow> string \<Rightarrow> string \<Rightarrow> string \<Rightarrow> entity_meta option
     \<Rightarrow> (error option \<times> 's) outcome" where
  "UpdateEntityMeta P s requestID requestSecret modEntityID newMeta =
     bindO
       (if modEntityID \<noteq> requestID
        then validateEntityCapabilityAndSecret P s requestID requestSecret ''MODIFY_ENTITY_META''
        else ValidateSecret P s requestID requestSecret)
       (\<lambda>r. case r of
               Some err \<Rightarrow> Return (Some err, s)
             | None \<Rightarrow>
                 (case LoadEntity P s modEntityID of
                    Inl err \<Rightarrow> Return (Some err, s)
                  | Inr e \<Rightarrow>
                      bindO (updateEntityMeta P s e newMeta)
                        (\<lambda>(err, e', s'). Return (err, s'))))"

section \<open>Package \<open>tree\<close>: the manager\<close>

record 's Manager =
  mdb :: 's
  bootstrapDone :: bool

definition errorOf :: "error + 'a \<Rightarrow> error option" where
  "errorOf r = (case r of Inl err \<Rightarrow> Some err | Inr x \<Rightarrow> None)"

text \<open>
  \<open>Manager.MakeBootstrap\<close>: \<open>log.Fatal\<close> ends the process when the hooks cannot be
  fetched, and again, after the flag is set, when the run failed.
\<close>

definition Manager_MakeBootstrap ::
  "'s ports \<Rightarrow> 's Manager \<Rightarrow> string \<Rightarrow> string \<Rightarrow> 's Manager outcome" where
  "Manager_MakeBootstrap P m eID secret =
     (if bootstrapDone m then Return m
      else
        (case FetchHooks P ''BOOTSTRAP-SERVER'' of
           Some err \<Rightarrow> Fatal
         | None \<Rightarrow>
             (case RunHooks P ''BOOTSTRAP-SERVER'' (mdb m) emptyEntity
                     \<lparr>ID = Some eID, Number = None, Secret = Some secret,
                      Meta = Some (emptyMeta\<lparr>Capabilities := [Capability_GLOBAL_ROOT P]\<rparr>)\<rparr> of
                (Inl err, s') \<Rightarrow> Fatal
              | (Inr e, s') \<Rightarrow> Return (m\<lparr>mdb := s', bootstrapDone := True\<rparr>))))"

definition Manager_DisableBootstrap :: "'s Manager \<Rightarrow> 's Manager" where
  "Manager_DisableBootstrap m = m\<lparr>bootstrapDone := True\<rparr>"

text \<open>
  \<open>Manager.SetEntityCapabilityByID\<close> and \<open>Manager.RemoveEntityCapabilityByID\<close>: the name
  is looked up first, with Go's two-result map read.
\<close>

definition SetEntityCapabilityByID ::
  "'s ports \<Rightarrow> 's \<Rightarrow> string \<Rightarrow> string \<Rightarrow> (error option \<times> 's) outcome" where
  "SetEntityCapabilityByID P s eID c =
     (case Capability_value P c of
        None \<Rightarrow> Return (Some ErrUnknownCapability, s)
      | Some capIndex \<Rightarrow>
          (case FetchHooks P ''SET-CAPABILITY'' of
             Some err \<Rightarrow> Fatal
           | None \<Rightarrow>
               (case RunHooks P ''SET-CAPABILITY'' s (emptyEntity\<lparr>ID := Some eID\<rparr>)
                       (emptyEntity\<lparr>Meta := Some (emptyMeta\<lparr>Capabilities := [capIndex]\<rparr>)\<rparr>) of
                  (r, s') \<Rightarrow> Return (errorOf r, s'))))"

definition RemoveEntityCapabilityByID ::
  "'s ports \<Rightarrow> 's \<Rightarrow> string \<Rightarrow> string \<Rightarrow> (error option \<times> 's) outcome" where
  "RemoveEntityCapabilityByID P s eID c =
     (case Capability_value P c of
        None \<Rightarrow> Return (Some ErrUnknownCapability, s)
      | Some capIndex \<Rightarrow>
          (case FetchHooks P ''DROP-CAPABILITY'' of
             Some err \<Rightarrow> Fatal
           | None \<Rightarrow>
               (case RunHooks P ''DROP-CAPABILITY'' s (emptyEntity\<lparr>ID := Some eID\<rparr>)
                       (emptyEntity\<lparr>Meta := Some (emptyMeta\<lparr>Capabilities := [capIndex]\<rparr>)\<rparr>) of
                  (r, s') \<Rightarrow> Return (errorOf r, s'))))"

definition Manager_ValidateSecret ::
  "'s ports \<Rightarrow> 's \<Rightarrow> string \<Rightarrow> string \<Rightarrow> (error option \<times> 's) outcome" where
  "Manager_ValidateSecret P s eID secret =
     (case FetchHooks P ''VALIDATE-IDENTITY'' of
        Some err \<Rightarrow> Fatal
      | None \<Rightarrow>
          (case RunHooks P ''VALIDATE-IDENTITY'' s emptyEntity
                  (emptyEntity\<lparr>ID := Some eID, Secret := Some secret\<rparr>) of
             (r, s') \<Rightarrow> Return (errorOf r, s')))"

text \<open>
  \<open>Manager.LockEntity\<close> and \<open>Manager.UnlockEntity\<close>: the stages \<open>LOCK\<close> and \<open>UNLOCK\<close>
  run on the ID alone.
\<close>

definition LockEntity ::
  "'s ports \<Rightarrow> 's \<Rightarrow> string \<Rightarrow> (error option \<times> 's) outcome" where
  "LockEntity P s eID =
     (case FetchHooks P ''LOCK'' of
        Some err \<Rightarrow> Fatal
      | None \<Rightarrow>
          (case RunHooks P ''LOCK'' s emptyEntity (emptyEntity\<lparr>ID := Some eID\<rparr>) of
             (r, s') \<Rightarrow> Return (errorOf r, s')))"

definition UnlockEntity ::
  "'s ports \<Rightarrow> 's \<Rightarrow> string \<Rightarrow> (error option \<times> 's) outcome" where
  "UnlockEntity P s eID =
     (case FetchHooks P ''UNLOCK'' of
        Some err \<Rightarrow> Fatal
      | None \<Rightarrow>
          (case RunHooks P ''UNLOCK'' s emptyEntity (emptyEntity\<lparr>ID := Some eID\<rparr>) of
             (r, s') \<Rightarrow> Return (errorOf r, s')))"

subsection \<open>The chains of locking and identity verification\<close>

text \<open>
  Modelled from the spec: the hook chains of the stages \<open>LOCK\<close>, \<open>UNLOCK\<close> and
  \<open>VALIDATE-IDENTITY\<close>, which belong to this repository and are not among the source
  files. Section 4.5: lock and unlock set and clear the locked flag through their
  stages, and the identity-verification stage must treat a locked entity as
  unauthenticatable regardless of secret correctness. Section 4.4: verification loads
  the entity, asks the sealer to verify the plaintext against the stored sealed form,
  and fails with a single authentication error; section 7 puts secret mismatch and
  locked entity in that one class. Section 4.1: the first hook that fails ends the
  chain with its error, so a failed load or save is returned as it is. The entity is
  the one the request data names. \<open>E_ENTITY_BADAUTH\<close> stands for the authentication
  error; an entity without a secret is not usable and is rejected with it too. Other
  stages are not modelled here and run no hook.
\<close>

definition withLocked :: "bool \<Rightarrow> entity \<Rightarrow> entity" where
  "withLocked b e =
     e\<lparr>Meta := Some ((case Meta e of None \<Rightarrow> emptyMeta | Some m \<Rightarrow> m)\<lparr>Locked := Some b\<rparr>)\<rparr>"

definition specRunHooks ::
  "'s ports \<Rightarrow> string \<Rightarrow> 's \<Rightarrow> entity \<Rightarrow> entity \<Rightarrow> (error + entity) \<times> 's" where
  "specRunHooks P stage s e req =
     (case LoadEntity P s (GetID req) of
        Inl err \<Rightarrow> (Inl err, s)
      | Inr ent \<Rightarrow>
          if stage = ''LOCK'' \<or> stage = ''UNLOCK'' then
            (case SaveEntity P s (withLocked (stage = ''LOCK'') ent) of
               (Some err, s') \<Rightarrow> (Inl err, s')
             | (None, s') \<Rightarrow> (Inr (withLocked (stage = ''LOCK'') ent), s'))
          else if stage = ''VALIDATE-IDENTITY'' then
            (if GetLocked ent then (Inl E_ENTITY_BADAUTH, s)
             else
               (case Secret ent of
                  None \<Rightarrow> (Inl E_ENTITY_BADAUTH, s)
                | Some sealed \<Rightarrow>
                    (case VerifySecret P (GetSecret req) sealed of
                       Some err \<Rightarrow> (Inl E_ENTITY_BADAUTH, s)
                     | None \<Rightarrow> (Inr ent, s))))
          else (Inr ent, s))"

text \<open>The collaborators \<open>P\<close> with every stage wired to these chains.\<close>

definition withSpecHooks :: "'s ports \<Rightarrow> 's ports" where
  "withSpecHooks P = P\<lparr>FetchHooks := (\<lambda>stage. None), RunHooks := specRunHooks P\<rparr>"

text \<open>\<open>safeCopyEntity\<close>, on values: merge into a new entity, then overwrite the secret.\<close>

definition safeCopyEntity :: "entity \<Rightarrow> entity" where
  "safeCopyEntity e = (mergeEntity emptyEntity e)\<lparr>Secret := Some ''<REDACTED>''\<rparr>"

definition GetEntity ::
  "'s ports \<Rightarrow> 's \<Rightarrow> string \<Rightarrow> ((error + entity) \<times> 's) outcome" where
  "GetEntity P s eID =
     (case FetchHooks P ''FETCH'' of
        Some err \<Rightarrow> Fatal
      | None \<Rightarrow>
          (case RunHooks P ''FETCH'' s emptyEntity (emptyEntity\<lparr>ID := Some eID\<rparr>) of
             (Inl err, s') \<Rightarrow> Return (Inl err, s')
           | (Inr e, s') \<Rightarrow> Return (Inr (safeCopyEntity e), s')))"

text \<open>
  \<open>updateEntityKeys\<close>: the result is the returned pair (a \<open>nil\<close> slice is \<open>[]\<close>), the
  entity as the caller holds it afterwards, and the storage state. The \<open>switch\<close> has
  no default case.
\<close>

definition updateEntityKeys ::
  "'s ports \<Rightarrow> 's \<Rightarrow> entity \<Rightarrow> string \<Rightarrow> string \<Rightarrow> string
     \<Rightarrow> (string list \<times> error option) \<times> entity \<times> 's" where
  "updateEntityKeys P s e mode keyType key =
     (let mode' = ToUpper P mode;
          keyType' = ToUpper P keyType;
          m = (case Meta e of None \<Rightarrow> emptyMeta | Some m0 \<Rightarrow> m0);
          e0 = e\<lparr>Meta := Some m\<rparr>
      in if mode' = ''LIST'' then ((Keys m, None), e0, s)
         else
           (let e1 =
                  (if mode' = ''ADD''
                   then e0\<lparr>Meta := Some (m\<lparr>Keys :=
                           patchStringSlice P (Keys m) (keyType' @ '':'' @ key) True True\<rparr>)\<rparr>
                   else if mode' = ''DEL''
                   then e0\<lparr>Meta := Some (m\<lparr>Keys :=
                           patchStringSlice P (Keys m) key False False\<rparr>)\<rparr>
                   else e0)
            in (case SaveEntity P s e1 of
                  (Some err, s') \<Rightarrow> (([], Some err), e1, s')
                | (None, s') \<Rightarrow> (([], None), e1, s'))))"

definition UpdateEntityKeys ::
  "'s ports \<Rightarrow> 's \<Rightarrow> string \<Rightarrow> string \<Rightarrow> string \<Rightarrow> string
     \<Rightarrow> (string list \<times> error option) \<times> 's" where
  "UpdateEntityKeys P s entityID mode keytype key =
     (case LoadEntity P s entityID of
        Inl err \<Rightarrow> (([], Some err), s)
      | Inr e \<Rightarrow>
          (case updateEntityKeys P s e mode keytype key of (r, e', s') \<Rightarrow> (r, s')))"

section \<open>Package \<open>token\<close>: the registry of factories\<close>

text \<open>
  The package variables \<open>lb\<close> and \<open>services\<close>. A factory takes the logger and returns
  a service or an error; \<open>'l\<close> is the logger type and \<open>'v\<close> the service type.
\<close>

record ('l, 'v) token_pkg =
  lb :: "'l option"
  services :: "string \<Rightarrow> ('l \<Rightarrow> error + 'v) option"

text \<open>\<open>init()\<close> makes the empty map.\<close>

definition token_init :: "('l, 'v) token_pkg" where
  "token_init = \<lparr>lb = None, services = Map.empty\<rparr>"

text \<open>\<open>log()\<close>: the parent logger, or a null logger which it stores.\<close>

definition token_log :: "'l \<Rightarrow> ('l, 'v) token_pkg \<Rightarrow> 'l \<times> ('l, 'v) token_pkg" where
  "token_log nullLogger t =
     (case lb t of
        None \<Rightarrow> (nullLogger, t\<lparr>lb := Some nullLogger\<rparr>)
      | Some l \<Rightarrow> (l, t))"

definition New ::
  "'l \<Rightarrow> ('l, 'v) token_pkg \<Rightarrow> string \<Rightarrow> (error + 'v) \<times> ('l, 'v) token_pkg" where
  "New nullLogger t backend =
     (case services t backend of
        None \<Rightarrow> (Inl ErrUnknownTokenService, t)
      | Some f \<Rightarrow> (case token_log nullLogger t of (l, t') \<Rightarrow> (f l, t')))"

definition Register ::
  "('l, 'v) token_pkg \<Rightarrow> string \<Rightarrow> ('l \<Rightarrow> error + 'v) \<Rightarrow> ('l, 'v) token_pkg" where
  "Register t name impl =
     (case services t name of
        Some f \<Rightarrow> t
      | None \<Rightarrow> t\<lparr>services := (services t)(name \<mapsto> impl)\<rparr>)"

text \<open>A run of registrations, in order, as the \<open>init\<close> functions of the backends make.\<close>

fun RegisterAll ::
  "('l, 'v) token_pkg \<Rightarrow> (string \<times> ('l \<Rightarrow> error + 'v)) list \<Rightarrow> ('l, 'v) token_pkg" where
  "RegisterAll t [] = t"
| "RegisterAll t ((name, impl) # rs) = RegisterAll (Register t name impl) rs"

section \<open>\<open>safeCopyEntity\<close> on a store\<close>

text \<open>
  To say what the copy shares with the original, entities are placed in a store: an
  entity cell holds its scalar fields and the address of its metadata block, a
  metadata cell holds the block. \<open>unused\<close> is the next address the allocator hands
  out; \<open>&pb.Entity{}\<close> and the allocation inside \<open>proto.Merge\<close> take it.
\<close>

type_synonym addr = nat

type_synonym entity_cell = "addr entity_rec"

record store =
  entities :: "addr \<Rightarrow> entity_cell option"
  metas :: "addr \<Rightarrow> entity_meta option"
  unused :: addr

text \<open>The entity a pointer denotes: its cell, with the metadata block read through.\<close>

definition entityAt :: "store \<Rightarrow> addr \<Rightarrow> entity option" where
  "entityAt h p =
     (case entities h p of
        None \<Rightarrow> None
      | Some c \<Rightarrow>
          (case Meta c of
             None \<Rightarrow> Some \<lparr>ID = ID c, Number = Number c, Secret = Secret c, Meta = None\<rparr>
           | Some a \<Rightarrow>
               (case metas h a of
                  None \<Rightarrow> None
                | Some m \<Rightarrow>
                    Some \<lparr>ID = ID c, Number = Number c, Secret = Secret c, Meta = Some m\<rparr>)))"

definition allocEntity :: "store \<Rightarrow> addr \<times> store" where
  "allocEntity h =
     (unused h, h\<lparr>entities := (entities h)(unused h \<mapsto> emptyEntity), unused := Suc (unused h)\<rparr>)"

definition writeEntity :: "store \<Rightarrow> addr \<Rightarrow> entity_cell \<Rightarrow> store" where
  "writeEntity h p c = h\<lparr>entities := (entities h)(p \<mapsto> c)\<rparr>"

definition writeMeta :: "store \<Rightarrow> addr \<Rightarrow> entity_meta \<Rightarrow> store" where
  "writeMeta h a m = h\<lparr>metas := (metas h)(a \<mapsto> m)\<rparr>"

text \<open>
  \<open>proto.Merge(dst, src)\<close> on pointers. A \<open>nil\<close> destination panics and a \<open>nil\<close> source
  merges nothing (an address without a cell stands for \<open>nil\<close>). The scalar fields are
  copied into the destination cell. The metadata block of the source is merged into the
  block of the destination; when the destination has none, a new block is allocated for
  it, so the destination never takes the address of the source's block.
\<close>

definition Merge :: "store \<Rightarrow> addr \<Rightarrow> addr \<Rightarrow> store outcome" where
  "Merge h dst src =
     (case entities h dst of
        None \<Rightarrow> Panic
      | Some d \<Rightarrow>
          (case entities h src of
             None \<Rightarrow> Return h
           | Some c \<Rightarrow>
               (let d1 = d\<lparr>ID := mergeOpt (ID d) (ID c),
                           Number := mergeOpt (Number d) (Number c),
                           Secret := mergeOpt (Secret d) (Secret c)\<rparr>
                in (case Meta c of
                      None \<Rightarrow> Return (writeEntity h dst d1)
                    | Some sa \<Rightarrow>
                        (case metas h sa of
                           None \<Rightarrow> Panic
                         | Some sm \<Rightarrow>
                             (case Meta d of
                                Some da \<Rightarrow>
                                  (case metas h da of
                                     None \<Rightarrow> Panic
                                   | Some dm \<Rightarrow>
                                       Return (writeMeta (writeEntity h dst d1) da (mergeMeta dm sm)))
                              | None \<Rightarrow>
                                  (let a = unused h
                                   in Return
                                        ((writeMeta (writeEntity h dst (d1\<lparr>Meta := Some a\<rparr>)) a
                                            (mergeMeta emptyMeta sm))\<lparr>unused := Suc a\<rparr>))))))))"

text \<open>\<open>safeCopyEntity\<close> on pointers: the result is the address of \<open>dup\<close>.\<close>

definition safeCopyEntity_store :: "store \<Rightarrow> addr \<Rightarrow> (addr \<times> store) outcome" where
  "safeCopyEntity_store h e =
     (case allocEntity h of
        (dup, h1) \<Rightarrow>
          bindO (Merge h1 dup e)
            (\<lambda>h2. case entities h2 dup of
                     None \<Rightarrow> Panic
                   | Some d \<Rightarrow> Return (dup, writeEntity h2 dup (d\<lparr>Secret := Some ''<REDACTED>''\<rparr>))))"

text \<open>
  The addresses in use lie below \<open>unused\<close>, and the pointer \<open>p\<close> denotes an entity.
\<close>

definition allocated :: "store \<Rightarrow> bool" where
  "allocated h = (\<forall>a. unused h \<le> a \<longrightarrow> entities h a = None \<and> metas h a = None)"

section \<open>A sample instance, for evaluation\<close>

text \<open>
  Modelled from the spec: the storage behind the interface of section 6 (a load by ID or
  by number gives the entity or a not-found error, a save stores the entity under its
  ID, a delete removes it), here a list of entities, together with an allocator that
  picks the smallest positive number not in use, a sealer that tags the plaintext, a
  capability table with the names of section 6, a processor whose stages load the
  named entity, a slice patcher and an ASCII upper-casing. They serve to evaluate the
  functions above on concrete inputs; no general statement below depends on them.
\<close>

type_synonym memdb = "entity list"

definition memLoadEntity :: "memdb \<Rightarrow> string \<Rightarrow> error + entity" where
  "memLoadEntity s eID =
     (case find (\<lambda>e. ID e = Some eID) s of None \<Rightarrow> Inl E_NO_ENTITY | Some e \<Rightarrow> Inr e)"

definition memLoadEntityNumber :: "memdb \<Rightarrow> int32 \<Rightarrow> error + entity" where
  "memLoadEntityNumber s n =
     (case find (\<lambda>e. Number e = Some n) s of None \<Rightarrow> Inl E_NO_ENTITY | Some e \<Rightarrow> Inr e)"

definition memSaveEntity :: "memdb \<Rightarrow> entity \<Rightarrow> error option \<times> memdb" where
  "memSaveEntity s e = (None, e # filter (\<lambda>x. ID x \<noteq> ID e) s)"

definition memDeleteEntity :: "memdb \<Rightarrow> string \<Rightarrow> error option \<times> memdb" where
  "memDeleteEntity s eID =
     (case find (\<lambda>e. ID e = Some eID) s of
        None \<Rightarrow> (Some E_NO_ENTITY, s)
      | Some e \<Rightarrow> (None, filter (\<lambda>x. ID x \<noteq> Some eID) s))"

definition memNextUIDNumber :: "memdb \<Rightarrow> error + int32" where
  "memNextUIDNumber s =
     (case find (\<lambda>n. find (\<lambda>e. Number e = Some (of_nat n)) s = None) [1 ..< length s + 2] of
        None \<Rightarrow> Inl (Foreign ''no number left'')
      | Some n \<Rightarrow> Inr (of_nat n))"

definition sampleSecureSecret :: "string \<Rightarrow> error + string" where
  "sampleSecureSecret secret = Inr (''sealed:'' @ secret)"

definition sampleVerifySecret :: "string \<Rightarrow> string \<Rightarrow> error option" where
  "sampleVerifySecret secret sealed =
     (if sealed = ''sealed:'' @ secret then None else Some (Foreign ''mismatch''))"

definition sampleCapabilityValue :: "string \<Rightarrow> int32 option" where
  "sampleCapabilityValue =
     map_of [(''GLOBAL_ROOT'', 0), (''CREATE_ENTITY'', 10), (''DELETE_ENTITY'', 11),
             (''CHANGE_ENTITY_SECRET'', 12), (''MODIFY_ENTITY_META'', 13)]"

definition sampleRunHooks ::
  "string \<Rightarrow> memdb \<Rightarrow> entity \<Rightarrow> entity \<Rightarrow> (error + entity) \<times> memdb" where
  "sampleRunHooks stage s e req =
     (case ID (mergeEntity e req) of
        None \<Rightarrow> (Inl E_NO_ENTITY, s)
      | Some eID \<Rightarrow> (memLoadEntity s eID, s))"

definition samplePatchStringSlice :: "string list \<Rightarrow> string \<Rightarrow> bool \<Rightarrow> bool \<Rightarrow> string list" where
  "samplePatchStringSlice xs x ins uniq =
     (if ins then (if uniq \<and> x \<in> set xs then xs else xs @ [x])
      else filter (\<lambda>y. y \<noteq> x) xs)"

definition asciiUpper :: "char \<Rightarrow> char" where
  "asciiUpper ch =
     (let n = (of_char ch :: nat) in if 97 \<le> n \<and> n \<le> 122 then char_of (n - 32) else ch)"

definition samplePorts :: "memdb ports" where
  "samplePorts =
     \<lparr>LoadEntity = memLoadEntity,
      LoadEntityNumber = memLoadEntityNumber,
      SaveEntity = memSaveEntity,
      DeleteEntity = memDeleteEntity,
      SecureSecret = sampleSecureSecret,
      VerifySecret = sampleVerifySecret,
      nextUIDNumber = memNextUIDNumber,
      Capability_value = sampleCapabilityValue,
      Capability_GLOBAL_ROOT = 0,
      FetchHooks = (\<lambda>stage. None),
      RunHooks = sampleRunHooks,
      patchStringSlice = samplePatchStringSlice,
      ToUpper = map asciiUpper\<rparr>"

text \<open>Two stored entities: an administrator and a user who is locked.\<close>

definition adminMeta :: entity_meta where
  "adminMeta = emptyMeta\<lparr>Capabilities := [0], Groups := [''wheel'']\<rparr>"

definition admin :: entity where
  "admin =
     \<lparr>ID = Some ''admin'', Number = Some 1, Secret = Some ''sealed:hunter2'',
      Meta = Some adminMeta\<rparr>"

definition aliceMeta :: entity_meta where
  "aliceMeta = emptyMeta\<lparr>Capabilities := [10], Keys := [''SSH:k1''], Locked := Some True\<rparr>"

definition alice :: entity where
  "alice =
     \<lparr>ID = Some ''alice'', Number = Some 5, Secret = Some ''sealed:pw'', Meta = Some aliceMeta\<rparr>"

definition sampleDB :: memdb where
  "sampleDB = [admin, alice]"

text \<open>A metadata patch that also names a capability and a group.\<close>

definition samplePatch :: entity_meta where
  "samplePatch = emptyMeta\<lparr>Capabilities := [0], Groups := [''wheel''], Keys := [''SSH:k2'']\<rparr>"

text \<open>The same collaborators, with an allocator that has no number left.\<close>

definition exhaustedPorts :: "memdb ports" where
  "exhaustedPorts = samplePorts\<lparr>nextUIDNumber := (\<lambda>s. Inl (Foreign ''no number left''))\<rparr>"

text \<open>A store holding \<open>alice\<close> at address 0, her metadata block at address 1.\<close>

definition sampleStore :: store where
  "sampleStore =
     \<lparr>entities = [0 \<mapsto> \<lparr>ID = Some ''alice'', Number = Some 5, Secret = Some ''sealed:pw'',
                          Meta = Some 1\<rparr>],
      metas = [1 \<mapsto> aliceMeta],
      unused = 2\<rparr>"

text \<open>Two factories of the token registry, told apart by the service they return.\<close>

definition factoryF :: "string \<Rightarrow> error + string" where
  "factoryF l = Inr (''f:'' @ l)"

definition factoryG :: "string \<Rightarrow> error + string" where
  "factoryG l = Inr (''g:'' @ l)"

section \<open>Properties\<close>

subsection \<open>Auxiliary facts\<close>

lemma checkLoop_root: "root \<in> set caps \<Longrightarrow> checkLoop root cap caps = None"
  by (induction caps) auto

lemma checkLoop_cap: "cap \<in> set caps \<Longrightarrow> checkLoop root cap caps = None"
  by (induction caps) auto

lemma checkLoop_deny:
  "root \<notin> set caps \<Longrightarrow> cap \<notin> set caps \<Longrightarrow> checkLoop root cap caps = Some E_ENTITY_UNQUALIFIED"
  by (induction caps) auto

lemma holdsLoop_set: "holdsLoop cap caps = (cap \<in> set caps)"
  by (induction caps) auto

lemma count_list_distinct: "distinct xs \<Longrightarrow> x \<in> set xs \<Longrightarrow> count_list xs x = 1"
  by (induction xs) auto

lemma mergeOpt_None: "mergeOpt None x = x"
  by (cases x) (simp_all add: mergeOpt_def)

lemma mergeMeta_empty: "mergeMeta emptyMeta m = m"
  by (simp add: mergeMeta_def emptyMeta_def mergeOpt_None)

lemma mergeEntity_empty: "mergeEntity emptyEntity e = e"
  by (cases "Meta e") (simp_all add: mergeEntity_def emptyEntity_def mergeOpt_None mergeMeta_empty)

lemma safeCopyEntity_eq: "safeCopyEntity e = e\<lparr>Secret := Some ''<REDACTED>''\<rparr>"
  by (simp add: safeCopyEntity_def mergeEntity_empty)

text \<open>Evaluation of the sample storage.\<close>

lemma sample_loads:
  "LoadEntity samplePorts sampleDB ''admin'' = Inr admin"
  "LoadEntity samplePorts sampleDB ''alice'' = Inr alice"
  "LoadEntity samplePorts sampleDB ''ghost'' = Inl E_NO_ENTITY"
  "LoadEntityNumber samplePorts sampleDB 1 = Inr admin"
  "LoadEntityNumber samplePorts sampleDB 7 = Inl E_NO_ENTITY"
  by (simp_all add: samplePorts_def sampleDB_def memLoadEntity_def memLoadEntityNumber_def
      admin_def alice_def)

lemma sample_table:
  "capabilityOf samplePorts ''GLOBAL_ROOT'' = 0"
  "capabilityOf samplePorts ''CREATE_ENTITY'' = 10"
  "capabilityOf samplePorts ''DELETE_ENTITY'' = 11"
  "Capability_value samplePorts ''NOT_A_CAPABILITY'' = None"
  "capabilityOf samplePorts ''NOT_A_CAPABILITY'' = 0"
  "Capability_GLOBAL_ROOT samplePorts = 0"
  by (simp_all add: capabilityOf_def samplePorts_def sampleCapabilityValue_def)

lemma sample_ports:
  "SaveEntity samplePorts = memSaveEntity"
  "VerifySecret samplePorts = sampleVerifySecret"
  "SecureSecret samplePorts = sampleSecureSecret"
  "nextUIDNumber samplePorts = memNextUIDNumber"
  "FetchHooks samplePorts = (\<lambda>stage. None)"
  "RunHooks samplePorts = sampleRunHooks"
  "ToUpper samplePorts = map asciiUpper"
  by (simp_all add: samplePorts_def)

lemma sample_ids:
  "ID admin = Some ''admin''" "ID alice = Some ''alice''"
  "Number admin = Some 1" "Number alice = Some 5"
  by (simp_all add: admin_def alice_def)

lemma sample_save:
  "SaveEntity samplePorts sampleDB (alice\<lparr>Meta := Some m\<rparr>) =
     (None, [alice\<lparr>Meta := Some m\<rparr>, admin])"
  by (simp add: samplePorts_def memSaveEntity_def sampleDB_def admin_def alice_def)

lemma sample_metas:
  "Meta admin = Some adminMeta" "Meta alice = Some aliceMeta"
  "Capabilities adminMeta = [0]" "Capabilities aliceMeta = [10]"
  "Groups aliceMeta = []" "Keys aliceMeta = [''SSH:k1'']" "Locked aliceMeta = Some True"
  "Secret alice = Some ''sealed:pw''"
  by (simp_all add: admin_def alice_def adminMeta_def aliceMeta_def emptyMeta_def)

subsection \<open>Redaction\<close>

lemma entityAt_SomeD:
  assumes "entityAt h p = Some v"
  shows "\<exists>c. entities h p = Some c
           \<and> v = \<lparr>ID = ID c, Number = Number c, Secret = Secret c,
                  Meta = (case Meta c of None \<Rightarrow> None | Some a \<Rightarrow> metas h a)\<rparr>
           \<and> (\<forall>a. Meta c = Some a \<longrightarrow> metas h a \<noteq> None)"
  using assms by (auto simp: entityAt_def split: option.splits)

lemma allocated_entity: "allocated h \<Longrightarrow> entities h a = Some c \<Longrightarrow> a < unused h"
  by (rule ccontr) (simp add: allocated_def not_less)

lemma allocated_meta: "allocated h \<Longrightarrow> metas h a = Some m \<Longrightarrow> a < unused h"
  by (rule ccontr) (simp add: allocated_def not_less)

text \<open>\<open>Manager.GetEntity\<close> hands out nothing but safe copies.\<close>

lemma GetEntity_redacted:
  assumes "GetEntity P s eID = Return (Inr x, s')"
  shows "\<exists>e. x = e\<lparr>Secret := Some ''<REDACTED>''\<rparr>"
  using assms
  by (auto simp add: GetEntity_def safeCopyEntity_eq split: option.splits prod.splits sum.splits)

text \<open>
  C1. For a pointer \<open>p\<close> that denotes the entity \<open>v\<close> in a store whose addresses in use
  lie below \<open>unused\<close>, \<open>safeCopyEntity\<close> returns a pointer \<open>q\<close> to an entity that equals
  \<open>v\<close> in every field but the secret, which is \<open><REDACTED>\<close>; this is the value
  \<open>safeCopyEntity v\<close> that \<open>GetEntity\<close> returns. The entity at \<open>p\<close> is unchanged, and it
  stays unchanged when the copy's cell or the copy's metadata block is overwritten with
  anything: the copy shares no cell with the original.
\<close>

theorem safeCopyEntity_copy:
  assumes "allocated h" and "entityAt h p = Some v"
  shows "\<exists>q h'. safeCopyEntity_store h p = Return (q, h')
           \<and> entityAt h' q = Some (safeCopyEntity v)
           \<and> safeCopyEntity v = v\<lparr>Secret := Some ''<REDACTED>''\<rparr>
           \<and> entityAt h' p = Some v
           \<and> (\<forall>c. entityAt (writeEntity h' q c) p = Some v)
           \<and> (\<forall>c a m. entities h' q = Some c \<and> Meta c = Some a \<longrightarrow>
                  entityAt (writeMeta h' a m) p = Some v)"
proof -
  from entityAt_SomeD [OF assms(2)] obtain c where c: "entities h p = Some c"
    and veq: "v = \<lparr>ID = ID c, Number = Number c, Secret = Secret c,
                  Meta = (case Meta c of None \<Rightarrow> None | Some a \<Rightarrow> metas h a)\<rparr>"
    and mc: "\<forall>a. Meta c = Some a \<longrightarrow> metas h a \<noteq> None"
    by blast
  have p: "p < unused h" using assms(1) c by (rule allocated_entity)
  show ?thesis
  proof (cases "Meta c")
    case None
    show ?thesis
      using c p None assms(2) veq
      by (auto simp add: safeCopyEntity_store_def allocEntity_def Merge_def bindO_def Let_def
          writeEntity_def writeMeta_def entityAt_def emptyEntity_def mergeOpt_None safeCopyEntity_eq)
  next
    case (Some a)
    then obtain m where m: "metas h a = Some m" using mc by auto
    have a: "a < unused h" using assms(1) m by (rule allocated_meta)
    show ?thesis
      using c p Some m a assms(2) veq
      by (auto simp add: safeCopyEntity_store_def allocEntity_def Merge_def bindO_def Let_def
          writeEntity_def writeMeta_def entityAt_def emptyEntity_def mergeOpt_None mergeMeta_empty
          safeCopyEntity_eq)
  qed
qed

theorem safeCopyEntity_copy_witness:
  "allocated sampleStore \<and> entityAt sampleStore 0 = Some alice
   \<and> (\<exists>q h'. safeCopyEntity_store sampleStore 0 = Return (q, h')
          \<and> entityAt h' q = Some (alice\<lparr>Secret := Some ''<REDACTED>''\<rparr>)
          \<and> entityAt h' 0 = Some alice
          \<and> entityAt (writeEntity h' q emptyEntity) 0 = Some alice)"
proof -
  have a: "allocated sampleStore"
    by (simp add: allocated_def sampleStore_def)
  have b: "entityAt sampleStore 0 = Some alice"
    by (simp add: entityAt_def sampleStore_def alice_def)
  from safeCopyEntity_copy [OF a b] obtain q h' where
    "safeCopyEntity_store sampleStore 0 = Return (q, h')"
    "entityAt h' q = Some (safeCopyEntity alice)"
    "entityAt h' 0 = Some alice"
    "\<forall>c. entityAt (writeEntity h' q c) 0 = Some alice"
    by blast
  then show ?thesis using a b by (auto simp add: safeCopyEntity_eq)
qed

subsection \<open>Capabilities\<close>

text \<open>
  C2. For an entity with a metadata block and every name \<open>c\<close>: when its capability
  list holds \<open>GLOBAL_ROOT\<close>, \<open>checkEntityCapability\<close> succeeds, whether or not \<open>c\<close> was
  granted; when it does not, the check succeeds if the list holds the capability that
  \<open>c\<close> names (the table entry \<open>pb.Capability_value[c]\<close>) and returns
  \<open>E_ENTITY_UNQUALIFIED\<close> otherwise.
\<close>

theorem checkEntityCapability_root_or_exact:
  assumes "Meta e = Some m"
  shows "(Capability_GLOBAL_ROOT P \<in> set (Capabilities m) \<longrightarrow>
            checkEntityCapability P e c = Return None)
       \<and> (Capability_GLOBAL_ROOT P \<notin> set (Capabilities m) \<longrightarrow>
            (capabilityOf P c \<in> set (Capabilities m) \<longrightarrow>
               checkEntityCapability P e c = Return None) \<and>
            (capabilityOf P c \<notin> set (Capabilities m) \<longrightarrow>
               checkEntityCapability P e c = Return (Some E_ENTITY_UNQUALIFIED)))"
  using assms
  by (simp add: checkEntityCapability_def checkLoop_root checkLoop_cap checkLoop_deny)

theorem checkEntityCapability_root_or_exact_witness:
  "Meta admin = Some adminMeta
   \<and> Capability_GLOBAL_ROOT samplePorts \<in> set (Capabilities adminMeta)
   \<and> capabilityOf samplePorts ''DELETE_ENTITY'' \<notin> set (Capabilities adminMeta)
   \<and> checkEntityCapability samplePorts admin ''DELETE_ENTITY'' = Return None
   \<and> Meta alice = Some aliceMeta
   \<and> Capability_GLOBAL_ROOT samplePorts \<notin> set (Capabilities aliceMeta)
   \<and> capabilityOf samplePorts ''CREATE_ENTITY'' \<in> set (Capabilities aliceMeta)
   \<and> checkEntityCapability samplePorts alice ''CREATE_ENTITY'' = Return None
   \<and> capabilityOf samplePorts ''DELETE_ENTITY'' \<notin> set (Capabilities aliceMeta)
   \<and> checkEntityCapability samplePorts alice ''DELETE_ENTITY'' = Return (Some E_ENTITY_UNQUALIFIED)"
  using checkEntityCapability_root_or_exact [of admin adminMeta samplePorts "''DELETE_ENTITY''"]
    checkEntityCapability_root_or_exact [of alice aliceMeta samplePorts "''CREATE_ENTITY''"]
    checkEntityCapability_root_or_exact [of alice aliceMeta samplePorts "''DELETE_ENTITY''"]
  by (simp add: sample_metas sample_table)

text \<open>
  A name outside the table reads as capability 0. Where 0 is \<open>GLOBAL_ROOT\<close>, an entity
  that does not hold \<open>GLOBAL_ROOT\<close> is denied every such name.
\<close>

lemma checkEntityCapability_unknown_name:
  assumes "Meta e = Some m" and "Capability_value P c = None"
    and "Capability_GLOBAL_ROOT P = 0" and "Capability_GLOBAL_ROOT P \<notin> set (Capabilities m)"
  shows "checkEntityCapability P e c = Return (Some E_ENTITY_UNQUALIFIED)"
  using assms by (simp add: checkEntityCapability_def checkLoop_deny capabilityOf_def)

lemma setEntityCapability_held:
  assumes "Meta e = Some m" "capabilityOf P c \<in> set (Capabilities m)"
  shows "setEntityCapability P s e c = Return (None, e, s)"
  using assms by (simp add: setEntityCapability_def holdsLoop_set)

lemma setEntityCapability_new:
  assumes "Meta e = Some m" "c \<noteq> []" "capabilityOf P c \<notin> set (Capabilities m)"
  shows "setEntityCapability P s e c =
           Return (fst (SaveEntity P s (e\<lparr>Meta := Some (m\<lparr>Capabilities := Capabilities m @ [capabilityOf P c]\<rparr>)\<rparr>)),
                   e\<lparr>Meta := Some (m\<lparr>Capabilities := Capabilities m @ [capabilityOf P c]\<rparr>)\<rparr>,
                   snd (SaveEntity P s (e\<lparr>Meta := Some (m\<lparr>Capabilities := Capabilities m @ [capabilityOf P c]\<rparr>)\<rparr>)))"
  using assms by (simp add: setEntityCapability_def holdsLoop_set Let_def split: prod.splits)

text \<open>
  C7. For an entity with a metadata block whose capability list has no duplicates, and a
  non-empty name \<open>c\<close>: \<open>setEntityCapability\<close> returns, a second application to the entity
  it leaves changes nothing, and afterwards the capability that \<open>c\<close> names occurs
  exactly once in the list, which still has no duplicates. This covers the entity that
  held the capability from the start.
\<close>

theorem setEntityCapability_idempotent:
  assumes "Meta e = Some m" and "c \<noteq> []" and "distinct (Capabilities m)"
  shows "\<exists>err1 e1 s1.
           setEntityCapability P s e c = Return (err1, e1, s1)
         \<and> setEntityCapability P s1 e1 c = Return (None, e1, s1)
         \<and> count_list (GetCapabilities e1) (capabilityOf P c) = 1
         \<and> distinct (GetCapabilities e1)"
proof (cases "capabilityOf P c \<in> set (Capabilities m)")
  case True
  have "setEntityCapability P s e c = Return (None, e, s)"
    using assms(1) True by (rule setEntityCapability_held)
  moreover have "count_list (GetCapabilities e) (capabilityOf P c) = 1"
    using assms(1,3) True by (simp add: GetCapabilities_def count_list_distinct)
  moreover have "distinct (GetCapabilities e)"
    using assms(1,3) by (simp add: GetCapabilities_def)
  ultimately show ?thesis by blast
next
  case False
  let ?m1 = "m\<lparr>Capabilities := Capabilities m @ [capabilityOf P c]\<rparr>"
  let ?e1 = "e\<lparr>Meta := Some ?m1\<rparr>"
  have first: "setEntityCapability P s e c =
                 Return (fst (SaveEntity P s ?e1), ?e1, snd (SaveEntity P s ?e1))"
    using assms(1,2) False by (rule setEntityCapability_new)
  have "Meta ?e1 = Some ?m1" by simp
  moreover have "capabilityOf P c \<in> set (Capabilities ?m1)" by simp
  ultimately have second:
    "setEntityCapability P (snd (SaveEntity P s ?e1)) ?e1 c =
       Return (None, ?e1, snd (SaveEntity P s ?e1))"
    by (rule setEntityCapability_held)
  have cnt: "count_list (GetCapabilities ?e1) (capabilityOf P c) = 1"
    using False by (simp add: GetCapabilities_def count_list_0_iff)
  have dist: "distinct (GetCapabilities ?e1)"
    using assms(3) False by (simp add: GetCapabilities_def)
  from first second cnt dist show ?thesis by blast
qed

theorem setEntityCapability_idempotent_witness:
  "Meta alice = Some aliceMeta \<and> ''DELETE_ENTITY'' \<noteq> [] \<and> distinct (Capabilities aliceMeta)
   \<and> (\<exists>err1 e1 s1.
         setEntityCapability samplePorts sampleDB alice ''DELETE_ENTITY'' = Return (err1, e1, s1)
       \<and> GetCapabilities e1 = [10, 11]
       \<and> setEntityCapability samplePorts s1 e1 ''DELETE_ENTITY'' = Return (None, e1, s1)
       \<and> count_list (GetCapabilities e1) 11 = 1)"
proof -
  have h: "Meta alice = Some aliceMeta" "''DELETE_ENTITY'' \<noteq> []" "distinct (Capabilities aliceMeta)"
    by (simp_all add: sample_metas)
  have new: "capabilityOf samplePorts ''DELETE_ENTITY'' \<notin> set (Capabilities aliceMeta)"
    by (simp add: sample_metas sample_table)
  from setEntityCapability_idempotent [OF h, of samplePorts sampleDB] obtain err1 e1 s1 where r:
    "setEntityCapability samplePorts sampleDB alice ''DELETE_ENTITY'' = Return (err1, e1, s1)"
    "setEntityCapability samplePorts s1 e1 ''DELETE_ENTITY'' = Return (None, e1, s1)"
    "count_list (GetCapabilities e1) (capabilityOf samplePorts ''DELETE_ENTITY'') = 1"
    by blast
  have "e1 = alice\<lparr>Meta := Some (aliceMeta\<lparr>Capabilities := Capabilities aliceMeta @ [11]\<rparr>)\<rparr>"
    using r(1) setEntityCapability_new [OF h(1,2) new, of sampleDB] by (simp add: sample_table)
  then have "GetCapabilities e1 = [10, 11]"
    by (simp add: GetCapabilities_def sample_metas)
  with r h show ?thesis by (simp add: sample_table)
qed

text \<open>
  The two manager operations look the name up before anything else: a name outside the
  capability table gives \<open>ErrUnknownCapability\<close>, which is not the error of a failed
  capability check; no hook runs and the storage is as it was.
\<close>

lemma Manager_unknown_capability:
  assumes "Capability_value P c = None"
  shows "SetEntityCapabilityByID P s eID c = Return (Some ErrUnknownCapability, s)"
    and "RemoveEntityCapabilityByID P s eID c = Return (Some ErrUnknownCapability, s)"
    and "ErrUnknownCapability \<noteq> E_ENTITY_UNQUALIFIED"
  using assms by (simp_all add: SetEntityCapabilityByID_def RemoveEntityCapabilityByID_def)

text \<open>
  C8. In package \<open>entity_manager\<close>, \<open>setEntityCapability\<close> reads the table with the
  one-result map read and does not look at whether the name is there. On the name
  \<open>NOT_A_CAPABILITY\<close>, which the table does not hold, it returns no error where the
  claim asks for the unknown-capability error, and it appends capability 0 to the list
  of \<open>alice\<close> and saves her where the claim asks for an unchanged list.
\<close>

theorem setEntityCapability_unknown_name:
  "setEntityCapability samplePorts sampleDB alice ''NOT_A_CAPABILITY'' =
     Return (None,
             alice\<lparr>Meta := Some (aliceMeta\<lparr>Capabilities := [10, 0]\<rparr>)\<rparr>,
             [alice\<lparr>Meta := Some (aliceMeta\<lparr>Capabilities := [10, 0]\<rparr>)\<rparr>, admin])"
  by (simp add: setEntityCapability_def holdsLoop_set sample_table sample_metas Let_def
      sample_save)

subsection \<open>Identity verification\<close>

text \<open>\<open>Manager.ValidateSecret\<close> returns what the hook chain of its stage returns.\<close>

lemma Manager_ValidateSecret_verbatim:
  assumes "FetchHooks P ''VALIDATE-IDENTITY'' = None"
  shows "Manager_ValidateSecret P s eID secret =
           Return (errorOf (fst (RunHooks P ''VALIDATE-IDENTITY'' s emptyEntity
                                   (emptyEntity\<lparr>ID := Some eID, Secret := Some secret\<rparr>))),
                   snd (RunHooks P ''VALIDATE-IDENTITY'' s emptyEntity
                          (emptyEntity\<lparr>ID := Some eID, Secret := Some secret\<rparr>)))"
  using assms by (simp add: Manager_ValidateSecret_def split: prod.splits)

text \<open>The manager on the chains modelled from the specification.\<close>

lemma withSpecHooks_ports:
  "FetchHooks (withSpecHooks P) stage = None"
  "RunHooks (withSpecHooks P) = specRunHooks P"
  by (simp_all add: withSpecHooks_def)

lemma request_getters:
  "GetID (emptyEntity\<lparr>ID := Some eID\<rparr>) = eID"
  "GetID (emptyEntity\<lparr>ID := Some eID, Secret := Some secret\<rparr>) = eID"
  "GetSecret (emptyEntity\<lparr>ID := Some eID, Secret := Some secret\<rparr>) = secret"
  by (simp_all add: GetID_def GetSecret_def emptyEntity_def)

lemma GetLocked_withLocked: "GetLocked (withLocked b e) = b"
  by (simp add: GetLocked_def withLocked_def)

lemma spec_validate_missing:
  assumes "LoadEntity P s eID = Inl err"
  shows "Manager_ValidateSecret (withSpecHooks P) s eID secret = Return (Some err, s)"
  using assms
  by (simp add: Manager_ValidateSecret_def withSpecHooks_ports specRunHooks_def request_getters
      errorOf_def)

lemma spec_validate_locked:
  assumes "LoadEntity P s eID = Inr e" and "GetLocked e"
  shows "Manager_ValidateSecret (withSpecHooks P) s eID secret = Return (Some E_ENTITY_BADAUTH, s)"
  using assms
  by (simp add: Manager_ValidateSecret_def withSpecHooks_ports specRunHooks_def request_getters
      errorOf_def)

lemma spec_validate_unlocked:
  assumes "LoadEntity P s eID = Inr e" and "\<not> GetLocked e" and "Secret e = Some sealed"
  shows "Manager_ValidateSecret (withSpecHooks P) s eID secret =
           Return (if VerifySecret P secret sealed = None then None else Some E_ENTITY_BADAUTH, s)"
  using assms
  by (auto simp add: Manager_ValidateSecret_def withSpecHooks_ports specRunHooks_def
      request_getters errorOf_def split: option.splits)

lemma spec_lock:
  assumes "LoadEntity P s eID = Inr e" and "SaveEntity P s (withLocked True e) = (None, s')"
  shows "LockEntity (withSpecHooks P) s eID = Return (None, s')"
  using assms
  by (simp add: LockEntity_def withSpecHooks_ports specRunHooks_def request_getters errorOf_def)

text \<open>
  C3, as the code has it. When the entity cannot be loaded, \<open>ValidateSecret\<close> returns the
  loader's error unchanged. Under an ID whose entity is stored with a secret, every
  failure is the one error \<open>E_ENTITY_BADAUTH\<close>: \<open>EMDataStore.ValidateSecret\<close> fails with it
  exactly when the verifier rejects the plaintext, and \<open>Manager.ValidateSecret\<close>, which
  returns the error of its hook chain unchanged, fails with it on the chains of the
  specification exactly when the entity is locked or the verifier rejects the
  plaintext. In particular, once \<open>LockEntity\<close> has saved the entity as locked,
  \<open>ValidateSecret\<close> fails with \<open>E_ENTITY_BADAUTH\<close> for every plaintext, the correct one
  included.
\<close>

theorem ValidateSecret_errors:
  "(LoadEntity P s eID = Inl err \<longrightarrow>
      ValidateSecret P s eID secret = Return (Some err)
    \<and> Manager_ValidateSecret (withSpecHooks P) s eID secret = Return (Some err, s))
 \<and> (LoadEntity P s eID = Inr e \<and> Secret e = Some sealed \<longrightarrow>
      ValidateSecret P s eID secret =
        Return (if VerifySecret P secret sealed = None then None else Some E_ENTITY_BADAUTH)
    \<and> Manager_ValidateSecret (withSpecHooks P) s eID secret =
        Return (if \<not> GetLocked e \<and> VerifySecret P secret sealed = None
                then None else Some E_ENTITY_BADAUTH, s))
 \<and> (FetchHooks P ''VALIDATE-IDENTITY'' = None \<longrightarrow>
      Manager_ValidateSecret P s eID secret =
        Return (errorOf (fst (RunHooks P ''VALIDATE-IDENTITY'' s emptyEntity
                                (emptyEntity\<lparr>ID := Some eID, Secret := Some secret\<rparr>))),
                snd (RunHooks P ''VALIDATE-IDENTITY'' s emptyEntity
                       (emptyEntity\<lparr>ID := Some eID, Secret := Some secret\<rparr>))))
 \<and> (LoadEntity P s eID = Inr e \<and> SaveEntity P s (withLocked True e) = (None, s')
      \<and> LoadEntity P s' eID = Inr (withLocked True e) \<longrightarrow>
      LockEntity (withSpecHooks P) s eID = Return (None, s')
    \<and> Manager_ValidateSecret (withSpecHooks P) s' eID secret = Return (Some E_ENTITY_BADAUTH, s'))"
proof -
  have missing: "ValidateSecret P s eID secret = Return (Some err)"
    if "LoadEntity P s eID = Inl err"
    using that by (simp add: ValidateSecret_def)
  have stored: "ValidateSecret P s eID secret =
      Return (if VerifySecret P secret sealed = None then None else Some E_ENTITY_BADAUTH)"
    if "LoadEntity P s eID = Inr e" "Secret e = Some sealed"
    using that by (auto simp add: ValidateSecret_def split: option.splits)
  have chain: "Manager_ValidateSecret (withSpecHooks P) s eID secret =
      Return (if \<not> GetLocked e \<and> VerifySecret P secret sealed = None
              then None else Some E_ENTITY_BADAUTH, s)"
    if "LoadEntity P s eID = Inr e" "Secret e = Some sealed"
  proof (cases "GetLocked e")
    case True
    then show ?thesis using spec_validate_locked [OF that(1) True] by simp
  next
    case False
    then show ?thesis using spec_validate_unlocked [OF that(1) False that(2)] by simp
  qed
  have locked: "Manager_ValidateSecret (withSpecHooks P) s' eID secret =
      Return (Some E_ENTITY_BADAUTH, s')"
    if "LoadEntity P s' eID = Inr (withLocked True e)"
    using that by (rule spec_validate_locked) (simp add: GetLocked_withLocked)
  show ?thesis
    using missing stored chain locked spec_validate_missing [of P s eID err secret]
      Manager_ValidateSecret_verbatim [of P s eID secret] spec_lock [of P s eID e s']
    by blast
qed

text \<open>Evaluation of the sample storage after \<open>admin\<close> is locked.\<close>

lemma sample_lock:
  "SaveEntity samplePorts sampleDB (withLocked True admin) = (None, [withLocked True admin, alice])"
  "LoadEntity samplePorts [withLocked True admin, alice] ''admin'' = Inr (withLocked True admin)"
  by (simp_all add: samplePorts_def memSaveEntity_def memLoadEntity_def sampleDB_def
      withLocked_def admin_def alice_def)

lemma sample_chain:
  "RunHooks samplePorts ''VALIDATE-IDENTITY'' sampleDB emptyEntity
     (emptyEntity\<lparr>ID := Some ''alice'', Secret := Some ''pw''\<rparr>) = (Inr alice, sampleDB)"
  by (simp add: samplePorts_def sampleRunHooks_def mergeEntity_def emptyEntity_def mergeOpt_def
      memLoadEntity_def sampleDB_def admin_def alice_def)

lemma sample_locked:
  "GetLocked alice" "\<not> GetLocked admin" "Secret admin = Some ''sealed:hunter2''"
  by (simp_all add: GetLocked_def alice_def admin_def aliceMeta_def adminMeta_def emptyMeta_def)

theorem ValidateSecret_errors_witness:
  "LoadEntity samplePorts sampleDB ''ghost'' = Inl E_NO_ENTITY
   \<and> ValidateSecret samplePorts sampleDB ''ghost'' ''pw'' = Return (Some E_NO_ENTITY)
   \<and> Manager_ValidateSecret (withSpecHooks samplePorts) sampleDB ''ghost'' ''pw''
       = Return (Some E_NO_ENTITY, sampleDB)
   \<and> LoadEntity samplePorts sampleDB ''alice'' = Inr alice
   \<and> Secret alice = Some ''sealed:pw''
   \<and> ValidateSecret samplePorts sampleDB ''alice'' ''wrong'' = Return (Some E_ENTITY_BADAUTH)
   \<and> ValidateSecret samplePorts sampleDB ''alice'' ''pw'' = Return None
   \<and> LoadEntity samplePorts sampleDB ''admin'' = Inr admin
   \<and> Secret admin = Some ''sealed:hunter2''
   \<and> Manager_ValidateSecret (withSpecHooks samplePorts) sampleDB ''admin'' ''hunter2''
       = Return (None, sampleDB)
   \<and> Manager_ValidateSecret (withSpecHooks samplePorts) sampleDB ''admin'' ''wrong''
       = Return (Some E_ENTITY_BADAUTH, sampleDB)
   \<and> FetchHooks samplePorts ''VALIDATE-IDENTITY'' = None
   \<and> Manager_ValidateSecret samplePorts sampleDB ''alice'' ''pw'' = Return (None, sampleDB)
   \<and> SaveEntity samplePorts sampleDB (withLocked True admin)
       = (None, [withLocked True admin, alice])
   \<and> LoadEntity samplePorts [withLocked True admin, alice] ''admin'' = Inr (withLocked True admin)
   \<and> LockEntity (withSpecHooks samplePorts) sampleDB ''admin''
       = Return (None, [withLocked True admin, alice])
   \<and> Manager_ValidateSecret (withSpecHooks samplePorts) [withLocked True admin, alice]
         ''admin'' ''hunter2''
       = Return (Some E_ENTITY_BADAUTH, [withLocked True admin, alice])"
proof -
  note T = ValidateSecret_errors
  have ghost: "LoadEntity samplePorts sampleDB ''ghost'' = Inl E_NO_ENTITY"
    and la: "LoadEntity samplePorts sampleDB ''alice'' = Inr alice"
    and sa: "Secret alice = Some ''sealed:pw''"
    and lr: "LoadEntity samplePorts sampleDB ''admin'' = Inr admin"
    and sr: "Secret admin = Some ''sealed:hunter2''"
    and fh: "FetchHooks samplePorts ''VALIDATE-IDENTITY'' = None"
    by (simp_all add: sample_loads sample_metas sample_locked sample_ports)
  have g: "ValidateSecret samplePorts sampleDB ''ghost'' ''pw'' = Return (Some E_NO_ENTITY)"
    "Manager_ValidateSecret (withSpecHooks samplePorts) sampleDB ''ghost'' ''pw''
       = Return (Some E_NO_ENTITY, sampleDB)"
    using T [where P = samplePorts and s = sampleDB and eID = "''ghost''" and err = E_NO_ENTITY
        and secret = "''pw''"] ghost
    by blast+
  have a1: "ValidateSecret samplePorts sampleDB ''alice'' ''wrong'' = Return (Some E_ENTITY_BADAUTH)"
    using T [where P = samplePorts and s = sampleDB and eID = "''alice''" and e = alice
        and sealed = "''sealed:pw''" and secret = "''wrong''"] la sa
    by (simp add: sample_ports sampleVerifySecret_def)
  have a2: "ValidateSecret samplePorts sampleDB ''alice'' ''pw'' = Return None"
    using T [where P = samplePorts and s = sampleDB and eID = "''alice''" and e = alice
        and sealed = "''sealed:pw''" and secret = "''pw''"] la sa
    by (simp add: sample_ports sampleVerifySecret_def)
  have r1: "Manager_ValidateSecret (withSpecHooks samplePorts) sampleDB ''admin'' ''hunter2''
       = Return (None, sampleDB)"
    using T [where P = samplePorts and s = sampleDB and eID = "''admin''" and e = admin
        and sealed = "''sealed:hunter2''" and secret = "''hunter2''"] lr sr
    by (simp add: sample_ports sampleVerifySecret_def sample_locked)
  have r2: "Manager_ValidateSecret (withSpecHooks samplePorts) sampleDB ''admin'' ''wrong''
       = Return (Some E_ENTITY_BADAUTH, sampleDB)"
    using T [where P = samplePorts and s = sampleDB and eID = "''admin''" and e = admin
        and sealed = "''sealed:hunter2''" and secret = "''wrong''"] lr sr
    by (simp add: sample_ports sampleVerifySecret_def sample_locked)
  have "Manager_ValidateSecret samplePorts sampleDB ''alice'' ''pw'' =
      Return (errorOf (fst (RunHooks samplePorts ''VALIDATE-IDENTITY'' sampleDB emptyEntity
                              (emptyEntity\<lparr>ID := Some ''alice'', Secret := Some ''pw''\<rparr>))),
              snd (RunHooks samplePorts ''VALIDATE-IDENTITY'' sampleDB emptyEntity
                     (emptyEntity\<lparr>ID := Some ''alice'', Secret := Some ''pw''\<rparr>)))"
    using T [where P = samplePorts and s = sampleDB and eID = "''alice''" and secret = "''pw''"] fh
    by blast
  then have v: "Manager_ValidateSecret samplePorts sampleDB ''alice'' ''pw'' = Return (None, sampleDB)"
    by (simp add: sample_chain errorOf_def)
  have k: "LockEntity (withSpecHooks samplePorts) sampleDB ''admin''
       = Return (None, [withLocked True admin, alice])"
    "Manager_ValidateSecret (withSpecHooks samplePorts) [withLocked True admin, alice]
         ''admin'' ''hunter2''
       = Return (Some E_ENTITY_BADAUTH, [withLocked True admin, alice])"
    using T [where P = samplePorts and s = sampleDB and eID = "''admin''" and e = admin
        and s' = "[withLocked True admin, alice]" and secret = "''hunter2''"] lr sample_lock
    by blast+
  from ghost la sa lr sr fh g a1 a2 r1 r2 v k sample_lock show ?thesis by blast
qed

text \<open>
  The claim fails for an ID that is not stored: the error of
  \<open>EMDataStore.ValidateSecret\<close> is the loader's, not \<open>E_ENTITY_BADAUTH\<close>.
\<close>

theorem ValidateSecret_counterexample:
  "LoadEntity samplePorts sampleDB ''ghost'' = Inl E_NO_ENTITY
   \<and> ValidateSecret samplePorts sampleDB ''ghost'' ''pw'' = Return (Some E_NO_ENTITY)
   \<and> E_NO_ENTITY \<noteq> E_ENTITY_BADAUTH"
  by (simp add: ValidateSecret_def sample_loads)

subsection \<open>Metadata\<close>

text \<open>
  C4. For an entity with a metadata block and every patch, \<open>updateEntityMeta\<close> saves
  and leaves the entity with its \<open>Capabilities\<close> and \<open>Groups\<close> as they were, whatever
  the patch holds in these two fields; the keys and the untyped metadata of the patch
  are appended, its locked flag replaces the entity's when set, and \<open>ID\<close>, \<open>Number\<close>
  and \<open>Secret\<close> are untouched.
\<close>

theorem updateEntityMeta_isolation:
  assumes "Meta e = Some m"
  shows "\<exists>m'. updateEntityMeta P s e (Some nm) =
                 Return (fst (SaveEntity P s (e\<lparr>Meta := Some m'\<rparr>)), e\<lparr>Meta := Some m'\<rparr>,
                         snd (SaveEntity P s (e\<lparr>Meta := Some m'\<rparr>)))
             \<and> Capabilities m' = Capabilities m
             \<and> Groups m' = Groups m
             \<and> Keys m' = Keys m @ Keys nm
             \<and> UntypedMeta m' = UntypedMeta m @ UntypedMeta nm
             \<and> Locked m' = (case Locked nm of None \<Rightarrow> Locked m | Some b \<Rightarrow> Some b)"
proof -
  let ?m' = "mergeMeta m (nm\<lparr>Capabilities := [], Groups := []\<rparr>)"
  have run: "updateEntityMeta P s e (Some nm) =
               Return (fst (SaveEntity P s (e\<lparr>Meta := Some ?m'\<rparr>)), e\<lparr>Meta := Some ?m'\<rparr>,
                       snd (SaveEntity P s (e\<lparr>Meta := Some ?m'\<rparr>)))"
    using assms by (simp add: updateEntityMeta_def Let_def split: prod.splits)
  have fields: "Capabilities ?m' = Capabilities m" "Groups ?m' = Groups m"
    "Keys ?m' = Keys m @ Keys nm" "UntypedMeta ?m' = UntypedMeta m @ UntypedMeta nm"
    "Locked ?m' = (case Locked nm of None \<Rightarrow> Locked m | Some b \<Rightarrow> Some b)"
    by (simp_all add: mergeMeta_def mergeOpt_def)
  from run fields show ?thesis by blast
qed

theorem updateEntityMeta_isolation_witness:
  "Meta alice = Some aliceMeta \<and> Capabilities samplePatch = [0] \<and> Groups samplePatch = [''wheel'']
   \<and> (\<exists>m'. updateEntityMeta samplePorts sampleDB alice (Some samplePatch) =
               Return (None, alice\<lparr>Meta := Some m'\<rparr>, [alice\<lparr>Meta := Some m'\<rparr>, admin])
           \<and> Capabilities m' = [10] \<and> Groups m' = [] \<and> Keys m' = [''SSH:k1'', ''SSH:k2''])"
proof -
  have h: "Meta alice = Some aliceMeta" by (simp add: sample_metas)
  from updateEntityMeta_isolation [OF h, of samplePorts sampleDB samplePatch] obtain m' where r:
    "updateEntityMeta samplePorts sampleDB alice (Some samplePatch) =
       Return (fst (SaveEntity samplePorts sampleDB (alice\<lparr>Meta := Some m'\<rparr>)), alice\<lparr>Meta := Some m'\<rparr>,
               snd (SaveEntity samplePorts sampleDB (alice\<lparr>Meta := Some m'\<rparr>)))"
    "Capabilities m' = Capabilities aliceMeta" "Groups m' = Groups aliceMeta"
    "Keys m' = Keys aliceMeta @ Keys samplePatch"
    by blast
  with h show ?thesis
    by (auto simp add: sample_save sample_metas samplePatch_def emptyMeta_def)
qed

text \<open>
  The exported \<open>UpdateEntityMeta\<close> reaches the merge once the requester is accepted
  and the entity to modify is loaded; what it saves is the entity described above.
\<close>

lemma UpdateEntityMeta_saves:
  assumes "(if modEntityID \<noteq> requestID
            then validateEntityCapabilityAndSecret P s requestID requestSecret ''MODIFY_ENTITY_META''
            else ValidateSecret P s requestID requestSecret) = Return None"
    and "LoadEntity P s modEntityID = Inr e" and "Meta e = Some m"
  shows "UpdateEntityMeta P s requestID requestSecret modEntityID (Some nm) =
           Return (SaveEntity P s
                     (e\<lparr>Meta := Some (mergeMeta m (nm\<lparr>Capabilities := [], Groups := []\<rparr>))\<rparr>))"
  using assms
  by (simp add: UpdateEntityMeta_def updateEntityMeta_def bindO_def Let_def split: prod.splits)

subsection \<open>Creation\<close>

text \<open>
  C6, as the code has it. \<open>newEntity\<close> looks the ID up first: when an entity with the
  requested ID is stored, the result is \<open>E_DUPLICATE_ID\<close>. When none is and an entity
  with the requested number is stored, the result is \<open>E_DUPLICATE_UIDNUMBER\<close>. In both
  cases the storage state is the one the call started from: nothing is saved.
\<close>

theorem newEntity_duplicates:
  "(LoadEntity P s eID = Inr e \<longrightarrow> newEntity P s eID uidNumber secret = (Some E_DUPLICATE_ID, s))
 \<and> (LoadEntity P s eID = Inl err \<and> LoadEntityNumber P s uidNumber = Inr e' \<longrightarrow>
       newEntity P s eID uidNumber secret = (Some E_DUPLICATE_UIDNUMBER, s))"
  by (simp add: newEntity_def)

theorem newEntity_duplicates_witness:
  "LoadEntity samplePorts sampleDB ''alice'' = Inr alice
   \<and> newEntity samplePorts sampleDB ''alice'' 7 ''x'' = (Some E_DUPLICATE_ID, sampleDB)
   \<and> LoadEntity samplePorts sampleDB ''ghost'' = Inl E_NO_ENTITY
   \<and> LoadEntityNumber samplePorts sampleDB 1 = Inr admin
   \<and> newEntity samplePorts sampleDB ''ghost'' 1 ''x'' = (Some E_DUPLICATE_UIDNUMBER, sampleDB)"
  using newEntity_duplicates [of samplePorts sampleDB "''alice''" alice 7 "''x''"]
    newEntity_duplicates [of samplePorts sampleDB "''ghost''" _ 1 "''x''" E_NO_ENTITY admin]
  by (simp add: sample_loads)

text \<open>
  The claim fails where both the ID and the number are taken: number 1 belongs to
  \<open>admin\<close> and is not \<open>-1\<close>, yet creating \<open>alice\<close> with it gives \<open>E_DUPLICATE_ID\<close>.
\<close>

theorem newEntity_counterexample:
  "LoadEntityNumber samplePorts sampleDB 1 = Inr admin
   \<and> (1 :: int32) \<noteq> - 1
   \<and> newEntity samplePorts sampleDB ''alice'' 1 ''x'' = (Some E_DUPLICATE_ID, sampleDB)
   \<and> E_DUPLICATE_ID \<noteq> E_DUPLICATE_UIDNUMBER"
  by (simp add: newEntity_def sample_loads)

subsection \<open>Bootstrap\<close>

lemma setEntityCapability_not_Fatal: "setEntityCapability P s e c \<noteq> Fatal"
  by (simp add: setEntityCapability_def Let_def split: option.splits prod.splits)

text \<open>
  \<open>EMDataStore.MakeBootstrap\<close> never ends the process, and it returns whenever no entity
  loaded under the ID lacks its metadata block.
\<close>

lemma MakeBootstrap_returns:
  assumes "\<forall>s e. LoadEntity P s eID = Inr e \<longrightarrow> Meta e \<noteq> None"
  shows "\<exists>emds'. MakeBootstrap P emds eID secret = Return emds'"
proof -
  have set: "\<exists>r. setEntityCapability P s e c = Return r" if "LoadEntity P s eID = Inr e" for s e c
  proof -
    from assms that obtain m where "Meta e = Some m" by auto
    then show ?thesis
      by (simp add: setEntityCapability_def Let_def split: prod.splits)
  qed
  show ?thesis
  proof (cases "bootstrap_done emds")
    case True
    then show ?thesis by (simp add: MakeBootstrap_def)
  next
    case False
    show ?thesis
    proof (cases "LoadEntity P (db emds) eID")
      case (Inr e)
      from set [OF Inr] obtain r where "setEntityCapability P (db emds) e ''GLOBAL_ROOT'' = Return r"
        by blast
      then show ?thesis using False Inr
        by (simp add: MakeBootstrap_def bindO_def split: prod.splits)
    next
      case (Inl err)
      obtain err1 s1 where n: "newEntity P (db emds) eID (- 1) secret = (err1, s1)"
        by (cases "newEntity P (db emds) eID (- 1) secret")
      have "\<exists>r. setEntityCapabilityByID P s1 eID ''GLOBAL_ROOT'' = Return r"
      proof (cases "LoadEntity P s1 eID")
        case (Inl err')
        then show ?thesis by (simp add: setEntityCapabilityByID_def)
      next
        case (Inr e)
        from set [OF Inr] obtain r where "setEntityCapability P s1 e ''GLOBAL_ROOT'' = Return r"
          by blast
        then show ?thesis using Inr
          by (simp add: setEntityCapabilityByID_def bindO_def split: prod.splits)
      qed
      then show ?thesis using False Inl n
        by (auto simp add: MakeBootstrap_def bindO_def split: prod.splits)
    qed
  qed
qed

text \<open>
  C5. Whenever a call of \<open>MakeBootstrap\<close> returns, the flag is set in the state it
  leaves, and every later call, with any ID and secret, returns that state as it is:
  storage and flag unchanged. This holds for \<open>EMDataStore.MakeBootstrap\<close>, which
  swallows the errors of creation and promotion, and for \<open>Manager.MakeBootstrap\<close>,
  which sets the flag and then ends the process when the run failed.
\<close>

theorem MakeBootstrap_once:
  "(MakeBootstrap P emds eID secret = Return emds' \<longrightarrow>
      bootstrap_done emds' \<and> MakeBootstrap P emds' eID2 secret2 = Return emds')
 \<and> (Manager_MakeBootstrap P m eID secret = Return m' \<longrightarrow>
      bootstrapDone m' \<and> Manager_MakeBootstrap P m' eID2 secret2 = Return m')"
proof -
  have a: "bootstrap_done emds'" if "MakeBootstrap P emds eID secret = Return emds'"
    using that
    by (auto simp add: MakeBootstrap_def bindO_def
        split: if_splits sum.splits prod.splits outcome.splits)
  have b: "bootstrapDone m'" if "Manager_MakeBootstrap P m eID secret = Return m'"
    using that
    by (auto simp add: Manager_MakeBootstrap_def
        split: if_splits sum.splits prod.splits option.splits)
  show ?thesis using a b by (auto simp add: MakeBootstrap_def Manager_MakeBootstrap_def)
qed

lemma bootstrap_promote:
  "MakeBootstrap samplePorts \<lparr>db = sampleDB, bootstrap_done = False\<rparr> ''alice'' ''x'' =
     Return \<lparr>db = [alice\<lparr>Meta := Some (aliceMeta\<lparr>Capabilities := [10, 0]\<rparr>)\<rparr>, admin],
             bootstrap_done = True\<rparr>"
  by (simp add: MakeBootstrap_def bindO_def sample_loads setEntityCapability_def holdsLoop_set
      sample_table sample_metas Let_def sample_save)

lemma bootstrap_failed:
  "MakeBootstrap exhaustedPorts \<lparr>db = sampleDB, bootstrap_done = False\<rparr> ''root'' ''x'' =
     Return \<lparr>db = sampleDB, bootstrap_done = True\<rparr>"
  by (simp add: MakeBootstrap_def bindO_def newEntity_def setEntityCapabilityByID_def
      exhaustedPorts_def samplePorts_def memLoadEntity_def memLoadEntityNumber_def sampleDB_def
      admin_def alice_def)

lemma bootstrap_manager:
  "Manager_MakeBootstrap samplePorts \<lparr>mdb = sampleDB, bootstrapDone = False\<rparr> ''alice'' ''x'' =
     Return \<lparr>mdb = sampleDB, bootstrapDone = True\<rparr>"
  by (simp add: Manager_MakeBootstrap_def sample_ports sampleRunHooks_def mergeEntity_def
      emptyEntity_def mergeOpt_def memLoadEntity_def sampleDB_def admin_def alice_def)

theorem MakeBootstrap_once_witness:
  "MakeBootstrap samplePorts \<lparr>db = sampleDB, bootstrap_done = False\<rparr> ''alice'' ''x'' =
     Return \<lparr>db = [alice\<lparr>Meta := Some (aliceMeta\<lparr>Capabilities := [10, 0]\<rparr>)\<rparr>, admin],
             bootstrap_done = True\<rparr>
   \<and> MakeBootstrap samplePorts
        \<lparr>db = [alice\<lparr>Meta := Some (aliceMeta\<lparr>Capabilities := [10, 0]\<rparr>)\<rparr>, admin],
         bootstrap_done = True\<rparr> ''mallory'' ''y'' =
     Return \<lparr>db = [alice\<lparr>Meta := Some (aliceMeta\<lparr>Capabilities := [10, 0]\<rparr>)\<rparr>, admin],
             bootstrap_done = True\<rparr>
   \<and> MakeBootstrap exhaustedPorts \<lparr>db = sampleDB, bootstrap_done = False\<rparr> ''root'' ''x'' =
     Return \<lparr>db = sampleDB, bootstrap_done = True\<rparr>
   \<and> MakeBootstrap exhaustedPorts \<lparr>db = sampleDB, bootstrap_done = True\<rparr> ''mallory'' ''y'' =
     Return \<lparr>db = sampleDB, bootstrap_done = True\<rparr>
   \<and> Manager_MakeBootstrap samplePorts \<lparr>mdb = sampleDB, bootstrapDone = False\<rparr> ''alice'' ''x'' =
     Return \<lparr>mdb = sampleDB, bootstrapDone = True\<rparr>
   \<and> Manager_MakeBootstrap samplePorts \<lparr>mdb = sampleDB, bootstrapDone = True\<rparr> ''mallory'' ''y'' =
     Return \<lparr>mdb = sampleDB, bootstrapDone = True\<rparr>"
  using
    MakeBootstrap_once [of samplePorts "\<lparr>db = sampleDB, bootstrap_done = False\<rparr>" "''alice''" "''x''"
      "\<lparr>db = [alice\<lparr>Meta := Some (aliceMeta\<lparr>Capabilities := [10, 0]\<rparr>)\<rparr>, admin],
        bootstrap_done = True\<rparr>" "''mallory''" "''y''"
      "\<lparr>mdb = sampleDB, bootstrapDone = False\<rparr>" "\<lparr>mdb = sampleDB, bootstrapDone = True\<rparr>"]
    MakeBootstrap_once [of exhaustedPorts "\<lparr>db = sampleDB, bootstrap_done = False\<rparr>" "''root''" "''x''"
      "\<lparr>db = sampleDB, bootstrap_done = True\<rparr>" "''mallory''" "''y''"
      "\<lparr>mdb = sampleDB, bootstrapDone = True\<rparr>" "\<lparr>mdb = sampleDB, bootstrapDone = True\<rparr>"]
    bootstrap_promote bootstrap_failed bootstrap_manager
  by simp

subsection \<open>Keys\<close>

lemma asciiUpper_frob: "map asciiUpper ''frob'' = ''FROB''"
  by code_simp

lemma upper_frob: "ToUpper samplePorts ''frob'' = ''FROB''"
  by (simp only: sample_ports asciiUpper_frob)

text \<open>
  C10. For a stored entity and a mode whose upper-case form is none of \<open>LIST\<close>, \<open>ADD\<close>
  and \<open>DEL\<close>, \<open>UpdateEntityKeys\<close> saves the loaded entity (with an empty metadata block
  in place of a missing one) with the keys it had, and returns the \<open>nil\<close> slice together
  with whatever error the save gave: \<open>(nil, nil)\<close> when the save succeeds. No error
  stands for the mode.
\<close>

theorem UpdateEntityKeys_unknown_mode:
  assumes "LoadEntity P s entityID = Inr e"
    and "ToUpper P mode \<noteq> ''LIST''" and "ToUpper P mode \<noteq> ''ADD''" and "ToUpper P mode \<noteq> ''DEL''"
  shows "\<exists>e0. UpdateEntityKeys P s entityID mode keytype key =
                 (([], fst (SaveEntity P s e0)), snd (SaveEntity P s e0))
             \<and> e0 = e\<lparr>Meta := Some (case Meta e of None \<Rightarrow> emptyMeta | Some m \<Rightarrow> m)\<rparr>
             \<and> GetKeys e0 = GetKeys e
             \<and> (fst (SaveEntity P s e0) = None \<longrightarrow>
                  fst (UpdateEntityKeys P s entityID mode keytype key) = ([], None))"
  using assms
  by (auto simp add: UpdateEntityKeys_def updateEntityKeys_def Let_def GetKeys_def emptyMeta_def
      split: prod.splits option.splits)

theorem UpdateEntityKeys_unknown_mode_witness:
  "LoadEntity samplePorts sampleDB ''alice'' = Inr alice
   \<and> ToUpper samplePorts ''frob'' = ''FROB''
   \<and> ''FROB'' \<noteq> ''LIST'' \<and> ''FROB'' \<noteq> ''ADD'' \<and> ''FROB'' \<noteq> ''DEL''
   \<and> UpdateEntityKeys samplePorts sampleDB ''alice'' ''frob'' ''ssh'' ''k2'' =
       (([], None), [alice, admin])"
proof -
  have h: "LoadEntity samplePorts sampleDB ''alice'' = Inr alice"
    "ToUpper samplePorts ''frob'' \<noteq> ''LIST''" "ToUpper samplePorts ''frob'' \<noteq> ''ADD''"
    "ToUpper samplePorts ''frob'' \<noteq> ''DEL''"
    by (simp_all add: sample_loads upper_frob)
  from UpdateEntityKeys_unknown_mode [OF h, of "''ssh''" "''k2''"] obtain e0 where r:
    "UpdateEntityKeys samplePorts sampleDB ''alice'' ''frob'' ''ssh'' ''k2'' =
       (([], fst (SaveEntity samplePorts sampleDB e0)), snd (SaveEntity samplePorts sampleDB e0))"
    "e0 = alice\<lparr>Meta := Some (case Meta alice of None \<Rightarrow> emptyMeta | Some m \<Rightarrow> m)\<rparr>"
    by blast
  have "e0 = alice\<lparr>Meta := Some aliceMeta\<rparr>" using r(2) by (simp add: sample_metas)
  moreover have "alice\<lparr>Meta := Some aliceMeta\<rparr> = alice" by (simp add: alice_def)
  ultimately have "SaveEntity samplePorts sampleDB e0 = (None, [alice, admin])"
    using sample_save [of aliceMeta] by simp
  with r(1) h(1) show ?thesis by (simp add: upper_frob)
qed

subsection \<open>The token registry\<close>

lemma RegisterAll_lb: "lb (RegisterAll t rs) = lb t"
  by (induction t rs rule: RegisterAll.induct) (auto simp: Register_def split: option.splits)

lemma Register_services:
  "services (Register t n f) k =
     (if k = n then (case services t n of None \<Rightarrow> Some f | Some h \<Rightarrow> Some h) else services t k)"
  by (simp add: Register_def split: option.splits)

lemma RegisterAll_keeps:
  "services t n = Some f \<Longrightarrow> services (RegisterAll t rs) n = Some f"
proof (induction rs arbitrary: t)
  case Nil
  then show ?case by simp
next
  case (Cons r rs)
  obtain a b where r: "r = (a, b)" by (cases r)
  have "services (Register t a b) n = Some f"
    using Cons.prems by (auto simp add: Register_services)
  then show ?case using Cons.IH r by simp
qed

lemma RegisterAll_absent:
  "n \<notin> fst ` set rs \<Longrightarrow> services (RegisterAll t rs) n = services t n"
  by (induction t rs rule: RegisterAll.induct) (auto simp: Register_services)

lemma RegisterAll_append:
  "RegisterAll t (xs @ ys) = RegisterAll (RegisterAll t xs) ys"
  by (induction t xs rule: RegisterAll.induct) auto

text \<open>
  In any run of registrations from the empty registry, the first factory registered
  under a name is the one \<open>New\<close> calls, whatever is registered after it.
\<close>

lemma Register_first_of_run:
  assumes "n \<notin> fst ` set pre"
  shows "fst (New nl (RegisterAll token_init (pre @ (n, f) # post)) n) = f nl"
proof -
  have e: "RegisterAll token_init (pre @ (n, f) # post)
         = RegisterAll (Register (RegisterAll token_init pre) n f) post"
    by (simp add: RegisterAll_append)
  have "services (RegisterAll token_init pre) n = None"
    using RegisterAll_absent [OF assms, of token_init] by (simp add: token_init_def)
  then have "services (Register (RegisterAll token_init pre) n f) n = Some f"
    by (simp add: Register_services)
  then have "services (RegisterAll token_init (pre @ (n, f) # post)) n = Some f"
    unfolding e by (rule RegisterAll_keeps)
  moreover have "lb (RegisterAll token_init (pre @ (n, f) # post)) = None"
    by (simp add: RegisterAll_lb token_init_def)
  ultimately show ?thesis by (simp add: New_def token_log_def)
qed

text \<open>
  C9. A second \<open>Register\<close> under a name changes nothing. When the name was free before
  \<open>Register(n, f)\<close>, \<open>New(n)\<close> after \<open>Register(n, f)\<close> and \<open>Register(n, g)\<close> returns what
  \<open>f\<close> returns on the logger. After any run of registrations from the empty registry in
  which \<open>n\<close> does not occur, \<open>New(n)\<close> returns \<open>ErrUnknownTokenService\<close> and leaves the
  package state as it is.
\<close>

theorem Register_first_wins:
  "Register (Register t n f) n g = Register t n f
 \<and> (services t n = None \<longrightarrow>
      fst (New nl (Register (Register t n f) n g) n) = f (fst (token_log nl t)))
 \<and> (n \<notin> fst ` set rs \<longrightarrow>
      New nl (RegisterAll token_init rs) n = (Inl ErrUnknownTokenService, RegisterAll token_init rs))"
proof -
  have a: "services (RegisterAll token_init rs) n = None" if "n \<notin> fst ` set rs"
    using RegisterAll_absent [OF that, of token_init] by (simp add: token_init_def)
  have b: "Register (Register t n f) n g = Register t n f"
    by (simp add: Register_def split: option.splits)
  show ?thesis
    using a b by (auto simp add: New_def Register_def token_log_def split: option.splits)
qed

theorem Register_first_wins_witness:
  "services (token_init :: (string, string) token_pkg) ''jwt'' = None
   \<and> fst (New ''null'' (Register (Register token_init ''jwt'' factoryF) ''jwt'' factoryG) ''jwt'')
       = Inr ''f:null''
   \<and> ''rsa'' \<notin> fst ` set [(''jwt'', factoryF), (''jwt'', factoryG)]
   \<and> fst (New ''null'' (RegisterAll token_init [(''jwt'', factoryF), (''jwt'', factoryG)]) ''rsa'')
       = Inl ErrUnknownTokenService"
proof -
  have free: "services (token_init :: (string, string) token_pkg) ''jwt'' = None"
    by (simp add: token_init_def)
  have absent: "''rsa'' \<notin> fst ` set [(''jwt'', factoryF), (''jwt'', factoryG)]"
    by simp
  have "fst (New ''null'' (Register (Register token_init ''jwt'' factoryF) ''jwt'' factoryG) ''jwt'')
          = factoryF (fst (token_log ''null'' (token_init :: (string, string) token_pkg)))"
    using Register_first_wins [of token_init "''jwt''" factoryF factoryG "''null''" "[]"] free
    by blast
  then have first: "fst (New ''null'' (Register (Register token_init ''jwt'' factoryF) ''jwt'' factoryG) ''jwt'')
          = Inr ''f:null''"
    by (simp add: token_init_def token_log_def factoryF_def)
  have "New ''null'' (RegisterAll token_init [(''jwt'', factoryF), (''jwt'', factoryG)]) ''rsa''
          = (Inl ErrUnknownTokenService, RegisterAll token_init [(''jwt'', factoryF), (''jwt'', factoryG)])"
    using Register_first_wins [of token_init "''rsa''" factoryF factoryG "''null''"
        "[(''jwt'', factoryF), (''jwt'', factoryG)]"] absent
    by blast
  then have unknown:
    "fst (New ''null'' (RegisterAll token_init [(''jwt'', factoryF), (''jwt'', factoryG)]) ''rsa'')
       = Inl ErrUnknownTokenService"
    by simp
  from free first absent unknown show ?thesis by blast
qed

end
